theory Spec2Isabelle
  imports Main "HOL-Library.Word"
begin

section \<open>The CUDA driver wrapper (cpp/tensorrt_llm/common/cudaDriverWrapper.cpp)\<close>

subsection \<open>Machine values\<close>

text \<open>
  Pointers, opaque driver handles (\<open>CUfunction\<close>, \<open>CUstream\<close>, ...), \<open>size_t\<close>,
  \<open>uintptr_t\<close> and \<open>CUdeviceptr\<close> are 64-bit words; \<open>unsigned int\<close>, \<open>int\<close> and the
  driver's enumerations are 32-bit words (\<open>sint\<close> reads an \<open>int\<close>). The null pointer is
  the word 0.
\<close>

type_synonym ptr = "64 word"
type_synonym uint = "32 word"
type_synonym cint = "32 word"

definition nullptr :: ptr where
  "nullptr = 0"

text \<open>Everything that ends a call without a result: a failed check, or a fault.\<close>

datatype failure =
    CheckFailed string      \<comment> \<open>a \<open>TLLM_CHECK\<close> macro whose condition is false\<close>
  | NullDereference         \<comment> \<open>\<open>*p\<close> with \<open>p\<close> null or not pointing to an object\<close>
  | OutOfBounds             \<comment> \<open>\<open>a[i]\<close> past the end of the array\<close>
  | BadFunctionPointer      \<comment> \<open>\<open>(*f)(...)\<close> with \<open>f\<close> null or not a function\<close>

subsection \<open>Formatted output on a \<open>std::stringstream\<close>\<close>

text \<open>
  The stream is its buffer and its \<open>basefield\<close> flag. \<open>std::hex\<close> sets the flag, and the
  flag stays set for every later integer insertion. Integers are written without
  padding, prefix or grouping (the classic locale), hexadecimal digits in lower case.
\<close>

datatype basefield = Dec | Hex

record stringstream =
  buf :: string
  base :: basefield

definition new_stringstream :: stringstream where
  "new_stringstream = \<lparr>buf = [], base = Dec\<rparr>"

definition digit_char :: "nat \<Rightarrow> char" where
  "digit_char d = ''0123456789abcdef'' ! d"

fun dec_digits :: "nat \<Rightarrow> string" where
  "dec_digits n =
     (if n < 10 then [digit_char n] else dec_digits (n div 10) @ [digit_char (n mod 10)])"

fun hex_digits :: "nat \<Rightarrow> string" where
  "hex_digits n =
     (if n < 16 then [digit_char n] else hex_digits (n div 16) @ [digit_char (n mod 16)])"

declare dec_digits.simps [simp del]
declare hex_digits.simps [simp del]

text \<open>\<open>ss << "text"\<close>\<close>

definition put_str :: "stringstream \<Rightarrow> string \<Rightarrow> stringstream" where
  "put_str ss s = ss\<lparr>buf := buf ss @ s\<rparr>"

text \<open>\<open>ss << std::hex\<close>\<close>

definition put_hex :: "stringstream \<Rightarrow> stringstream" where
  "put_hex ss = ss\<lparr>base := Hex\<rparr>"

text \<open>\<open>ss << v\<close> for an unsigned \<open>v\<close> (\<open>unsigned int\<close>, \<open>uintptr_t\<close>), given by its value.\<close>

definition put_unsigned :: "stringstream \<Rightarrow> nat \<Rightarrow> stringstream" where
  "put_unsigned ss n =
     put_str ss (case base ss of Dec \<Rightarrow> dec_digits n | Hex \<Rightarrow> hex_digits n)"

text \<open>
  \<open>ss << v\<close> for an \<open>int\<close> (and for an unscoped enumeration, which promotes to \<open>int\<close>):
  signed in decimal; in hexadecimal the value is converted to \<open>unsigned int\<close> first, so a
  negative number shows its two's complement.
\<close>

definition put_int :: "stringstream \<Rightarrow> cint \<Rightarrow> stringstream" where
  "put_int ss v =
     put_str ss (case base ss of
        Dec \<Rightarrow> (if sint v < 0 then ''-'' @ dec_digits (nat (- sint v))
                else dec_digits (nat (sint v)))
      | Hex \<Rightarrow> hex_digits (unat v))"

definition newline :: string where
  "newline = [CHR 0x0A]"

subsection \<open>Launch configurations\<close>

text \<open>
  \<open>CUlaunchAttributeValue\<close> is a union; the code reads its members \<open>clusterDim\<close>
  (three \<open>unsigned int\<close>) and \<open>priority\<close> (an \<open>int\<close>). The record gives each member read
  its own field, so nothing is assumed about how the members overlap.
\<close>

record CUlaunchAttributeValue =
  clusterDim_x :: uint
  clusterDim_y :: uint
  clusterDim_z :: uint
  priority :: cint

record CUlaunchAttribute =
  attr_id :: cint
  attr_value :: CUlaunchAttributeValue

text \<open>The two attribute identifiers the code knows, with their values in \<open>cuda.h\<close>.\<close>

definition CU_LAUNCH_ATTRIBUTE_CLUSTER_DIMENSION :: cint where
  "CU_LAUNCH_ATTRIBUTE_CLUSTER_DIMENSION = 4"

definition CU_LAUNCH_ATTRIBUTE_PRIORITY :: cint where
  "CU_LAUNCH_ATTRIBUTE_PRIORITY = 8"

text \<open>
  \<open>attrs\<close> is the array that the configuration's \<open>attrs\<close> pointer points to; \<open>numAttrs\<close> is
  the count the structure carries, and nothing forces it to fit the array.
\<close>

record CUlaunchConfig =
  gridDimX :: uint
  gridDimY :: uint
  gridDimZ :: uint
  blockDimX :: uint
  blockDimY :: uint
  blockDimZ :: uint
  sharedMemBytes :: uint
  hStream :: ptr
  attrs :: "CUlaunchAttribute list"
  numAttrs :: uint

subsection \<open>\<open>stringify_launch_config\<close>\<close>

text \<open>The \<open>switch (attr.id)\<close> of the loop body.\<close>

definition describe_attr :: "stringstream \<Rightarrow> CUlaunchAttribute \<Rightarrow> stringstream" where
  "describe_attr ss attr =
     (if attr_id attr = CU_LAUNCH_ATTRIBUTE_CLUSTER_DIMENSION then
        let ss = put_str ss ''Cluster Dimension: ('';
            ss = put_unsigned ss (unat (clusterDim_x (attr_value attr)));
            ss = put_str ss '', '';
            ss = put_unsigned ss (unat (clusterDim_y (attr_value attr)));
            ss = put_str ss '', '';
            ss = put_unsigned ss (unat (clusterDim_z (attr_value attr)))
        in put_str ss '')''
      else if attr_id attr = CU_LAUNCH_ATTRIBUTE_PRIORITY then
        let ss = put_str ss ''Priority: ''
        in put_int ss (priority (attr_value attr))
      else
        let ss = put_str ss ''Unknown Attribute (ID='';
            ss = put_int ss (attr_id attr)
        in put_str ss '')'')"

text \<open>
  The loop \<open>for (uint i = 0; i < config.numAttrs; ++i)\<close>, entered at \<open>i\<close> with the stream
  \<open>ss\<close>. Reading \<open>config.attrs[i]\<close> past the end of the array is a fault.
\<close>

function attrs_loop :: "CUlaunchConfig \<Rightarrow> uint \<Rightarrow> stringstream \<Rightarrow> failure + stringstream" where
  "attrs_loop config i ss =
     (if i < numAttrs config then
        (if unat i < length (attrs config) then
           let attr = attrs config ! unat i;
               ss = put_str ss ''  ['';
               ss = put_unsigned ss (unat i);
               ss = put_str ss ''] '';
               ss = describe_attr ss attr;
               ss = put_str ss newline
           in attrs_loop config (i + 1) ss
         else Inl OutOfBounds)
      else Inr ss)"
  by pat_completeness auto
termination
proof (relation "measure (\<lambda>(config, i, ss). unat (numAttrs config) - unat i)")
  show "wf (measure (\<lambda>(config, i, ss). unat (numAttrs config) - unat i))"
    by simp
next
  fix config :: CUlaunchConfig and i :: uint and ss x xa xb xc xd :: stringstream
    and attr :: CUlaunchAttribute
  assume lt: "i < numAttrs config"
  then have "unat i < unat (numAttrs config)"
    by (simp add: word_less_nat_alt)
  moreover from lt have "unat (i + 1) = unat i + 1"
    by (metis (no_types, lifting) add.commute add_0 inc_i inc_le
        unat_plus_simple unsigned_0 unsigned_1 word_gt_0)
  ultimately show "((config, i + 1, xd), (config, i, ss))
      \<in> measure (\<lambda>(config, i, ss). unat (numAttrs config) - unat i)"
    by simp
qed

declare attrs_loop.simps [simp del]

definition stringify_launch_config :: "CUlaunchConfig \<Rightarrow> failure + string" where
  "stringify_launch_config config =
     (let ss = new_stringstream;
          ss = put_str ss ''Grid Dimensions: ('';
          ss = put_unsigned ss (unat (gridDimX config));
          ss = put_str ss '', '';
          ss = put_unsigned ss (unat (gridDimY config));
          ss = put_str ss '', '';
          ss = put_unsigned ss (unat (gridDimZ config));
          ss = put_str ss ('')'' @ newline);
          ss = put_str ss ''Block Dimensions: ('';
          ss = put_unsigned ss (unat (blockDimX config));
          ss = put_str ss '', '';
          ss = put_unsigned ss (unat (blockDimY config));
          ss = put_str ss '', '';
          ss = put_unsigned ss (unat (blockDimZ config));
          ss = put_str ss ('')'' @ newline);
          ss = put_str ss ''Shared Memory: '';
          ss = put_unsigned ss (unat (sharedMemBytes config));
          ss = put_str ss ('' bytes'' @ newline);
          ss = put_str ss ''Stream: '';
          ss = put_str ss (if hStream config \<noteq> nullptr then ''Custom'' else ''Default'');
          ss = put_str ss '' (0x'';
          ss = put_hex ss;
          ss = put_unsigned ss (unat (hStream config));
          ss = put_str ss ('')'' @ newline);
          ss = put_str ss ''Attributes ('';
          ss = put_unsigned ss (unat (numAttrs config));
          ss = put_str ss (''):'' @ newline)
      in case attrs_loop config 0 ss of
           Inl e \<Rightarrow> Inl e
         | Inr ss \<Rightarrow> Inr (buf ss))"

subsection \<open>The process: loader, logger, memory, driver and the singleton's storage\<close>

text \<open>
  What the wrapper asks of the platform's dynamic loader, in the order it asks. The
  macros \<open>dllOpen\<close>, \<open>dllGetSym\<close> and \<open>dllClose\<close> expand to \<open>dlopen\<close>, \<open>dlsym\<close>, \<open>dlclose\<close>,
  or to \<open>LoadLibrary\<close>, \<open>GetProcAddress\<close>, \<open>FreeLibrary\<close> under \<open>_WIN32\<close>.
\<close>

datatype dll_call = DllOpen string | DllGetSym ptr string | DllClose ptr

datatype platform = Windows | Posix

text \<open>Arguments of a native driver function, in call order.\<close>

datatype cval =
    VPtr ptr        \<comment> \<open>a pointer or an opaque handle\<close>
  | VUInt uint      \<comment> \<open>\<open>unsigned int\<close>, \<open>cuuint32_t\<close>\<close>
  | VInt cint       \<comment> \<open>\<open>int\<close>, \<open>CUdevice\<close>\<close>
  | VEnum cint      \<comment> \<open>an enumeration of the driver API\<close>
  | VSize "64 word" \<comment> \<open>\<open>size_t\<close>\<close>
  | VDevPtr "64 word" \<comment> \<open>\<open>CUdeviceptr\<close>\<close>

text \<open>The class: the library handle and one function pointer per bound operation.\<close>

record CUDADriverWrapper =
  handle :: ptr
  fn_cuGetErrorName :: ptr
  fn_cuGetErrorString :: ptr
  fn_cuFuncSetAttribute :: ptr
  fn_cuLinkComplete :: ptr
  fn_cuModuleUnload :: ptr
  fn_cuLinkDestroy :: ptr
  fn_cuModuleLoadData :: ptr
  fn_cuLinkCreate :: ptr
  fn_cuModuleGetFunction :: ptr
  fn_cuModuleGetGlobal :: ptr
  fn_cuLibraryGetKernel :: ptr
  fn_cuLibraryLoadData :: ptr
  fn_cuLibraryGetGlobal :: ptr
  fn_cuLibraryUnload :: ptr
  fn_cuKernelSetAttribute :: ptr
  fn_cuCtxGetDevice :: ptr
  fn_cuLinkAddFile :: ptr
  fn_cuLinkAddData :: ptr
  fn_cuLaunchCooperativeKernel :: ptr
  fn_cuLaunchKernel :: ptr
  fn_cuLaunchKernelEx :: ptr
  fn_cuTensorMapEncodeTiled :: ptr
  fn_cuMemcpyDtoH :: ptr
  fn_cuDeviceGetAttribute :: ptr
  fn_cuOccupancyMaxActiveClusters :: ptr

text \<open>The control block of a \<open>std::shared_ptr\<close>: the object and its strong count.\<close>

record control_block =
  obj :: CUDADriverWrapper
  use_count :: nat

text \<open>A \<open>shared_ptr\<close> or \<open>weak_ptr\<close>: empty, or the index of its control block.\<close>

type_synonym shared_ptr = "nat option"
type_synonym weak_ptr = "nat option"

datatype log_level = TRACE | DEBUG | INFO | WARNING | ERROR

record 'd world =
  dll_calls :: "dll_call list"            \<comment> \<open>loader calls made so far\<close>
  log_sink :: "(log_level \<times> string) list" \<comment> \<open>lines handed to the logger so far\<close>
  configs :: "ptr \<Rightarrow> CUlaunchConfig option" \<comment> \<open>launch configurations in memory\<close>
  driver :: 'd                            \<comment> \<open>whatever else native driver code reads and writes\<close>
  blocks :: "control_block list"          \<comment> \<open>control blocks allocated so far\<close>
  instance_wp :: weak_ptr                 \<comment> \<open>\<open>static std::weak_ptr<CUDADriverWrapper> instance\<close>\<close>

text \<open>
  What the process runs on: the platform, what the loader answers (opening a library
  may give a different answer at each attempt; a symbol's address is fixed by handle and
  name), the native function found at each address, and whether debug checks are on.
\<close>

record 'd env =
  platform_of :: platform
  open_result :: "dll_call list \<Rightarrow> string \<Rightarrow> ptr"
  sym_result :: "ptr \<Rightarrow> string \<Rightarrow> ptr"
  code_at :: "ptr \<Rightarrow> (cval list \<Rightarrow> 'd world \<Rightarrow> cint \<times> 'd world) option"
  check_debug_enabled :: bool

subsection \<open>The loader macros\<close>

definition CUDA_LIB_NAME :: string where
  "CUDA_LIB_NAME = ''cuda''"

definition dll_file_name :: "platform \<Rightarrow> string \<Rightarrow> string" where
  "dll_file_name p name =
     (case p of Windows \<Rightarrow> ''nv'' @ name @ ''.dll'' | Posix \<Rightarrow> ''lib'' @ name @ ''.so.1'')"

definition dllOpen :: "'d env \<Rightarrow> string \<Rightarrow> 'd world \<Rightarrow> ptr \<times> 'd world" where
  "dllOpen env name s =
     (let file = dll_file_name (platform_of env) name
      in (open_result env (dll_calls s) file, s\<lparr>dll_calls := dll_calls s @ [DllOpen file]\<rparr>))"

definition dllClose :: "ptr \<Rightarrow> 'd world \<Rightarrow> 'd world" where
  "dllClose h s = s\<lparr>dll_calls := dll_calls s @ [DllClose h]\<rparr>"

definition dllGetSym :: "'d env \<Rightarrow> ptr \<Rightarrow> string \<Rightarrow> 'd world \<Rightarrow> ptr \<times> 'd world" where
  "dllGetSym env h name s =
     (sym_result env h name, s\<lparr>dll_calls := dll_calls s @ [DllGetSym h name]\<rparr>)"

subsection \<open>Checks and logging (\<open>assert.h\<close>, \<open>logger.h\<close>)\<close>

text \<open>
  Modelled from the spec: the macro \<open>TLLM_CHECK_WITH_INFO\<close> of \<open>tensorrt_llm/common/assert.h\<close>,
  which is not among the sources. The spec: construction "fails fatally (process-level
  assertion) if the native library cannot be opened". A false condition ends the
  enclosing call with the message; a true one does nothing.
\<close>

definition TLLM_CHECK_WITH_INFO :: "bool \<Rightarrow> string \<Rightarrow> failure option" where
  "TLLM_CHECK_WITH_INFO val info = (if val then None else Some (CheckFailed info))"

text \<open>
  Modelled from the spec: the macro \<open>TLLM_CHECK_DEBUG_WITH_INFO\<close> of the same header. The
  spec: the violation "is flagged via a debug-only assertion (not a hard failure in
  release builds)", "checked only under a debug build configuration and otherwise
  unenforced".
\<close>

definition TLLM_CHECK_DEBUG_WITH_INFO :: "'d env \<Rightarrow> bool \<Rightarrow> string \<Rightarrow> failure option" where
  "TLLM_CHECK_DEBUG_WITH_INFO env val info =
     (if check_debug_enabled env then TLLM_CHECK_WITH_INFO val info else None)"

text \<open>
  Modelled from the spec: the macro \<open>TLLM_LOG_DEBUG\<close> of \<open>tensorrt_llm/common/logger.h\<close>,
  which is not among the sources. The spec: "a debug-level structured log line is
  emitted before each call", "consumed by whatever process-wide logging sink is
  configured externally". The line, already formatted, goes to the sink at level
  \<open>DEBUG\<close>.
\<close>

definition TLLM_LOG_DEBUG :: "string \<Rightarrow> 'd world \<Rightarrow> 'd world" where
  "TLLM_LOG_DEBUG line s = s\<lparr>log_sink := log_sink s @ [(DEBUG, line)]\<rparr>"

subsection \<open>Constructor and destructor\<close>

definition load_sym :: "'d env \<Rightarrow> ptr \<Rightarrow> string \<Rightarrow> 'd world \<Rightarrow> ptr \<times> 'd world" where
  "load_sym env h name s = (let (ret, s) = dllGetSym env h name s in (ret, s))"

text \<open>
  \<open>CUDADriverWrapper::CUDADriverWrapper()\<close>. Every member is assigned exactly once and
  unconditionally, so the object is built from the values in assignment order.
\<close>

definition CUDADriverWrapper_ctor ::
    "'d env \<Rightarrow> 'd world \<Rightarrow> (failure + CUDADriverWrapper) \<times> 'd world" where
  "CUDADriverWrapper_ctor env s =
     (let (h, s) = dllOpen env CUDA_LIB_NAME s
      in case TLLM_CHECK_WITH_INFO (h \<noteq> nullptr) ''CUDA driver library is not open correctly.'' of
        Some e \<Rightarrow> (Inl e, s)
      | None \<Rightarrow>
         (let
          (cuGetErrorName', s) = load_sym env h ''cuGetErrorName'' s;
          (cuGetErrorString', s) = load_sym env h ''cuGetErrorString'' s;
          (cuFuncSetAttribute', s) = load_sym env h ''cuFuncSetAttribute'' s;
          (cuLinkComplete', s) = load_sym env h ''cuLinkComplete'' s;
          (cuModuleUnload', s) = load_sym env h ''cuModuleUnload'' s;
          (cuLinkDestroy', s) = load_sym env h ''cuLinkDestroy'' s;
          (cuModuleLoadData', s) = load_sym env h ''cuModuleLoadData'' s;
          (cuLinkCreate', s) = load_sym env h ''cuLinkCreate_v2'' s;
          (cuModuleGetFunction', s) = load_sym env h ''cuModuleGetFunction'' s;
          (cuModuleGetGlobal', s) = load_sym env h ''cuModuleGetGlobal_v2'' s;
          (cuLibraryGetKernel', s) = load_sym env h ''cuLibraryGetKernel'' s;
          (cuLibraryLoadData', s) = load_sym env h ''cuLibraryLoadData'' s;
          (cuLibraryGetGlobal', s) = load_sym env h ''cuLibraryGetGlobal'' s;
          (cuLibraryUnload', s) = load_sym env h ''cuLibraryUnload'' s;
          (cuKernelSetAttribute', s) = load_sym env h ''cuKernelSetAttribute'' s;
          (cuCtxGetDevice', s) = load_sym env h ''cuCtxGetDevice'' s;
          (cuLinkAddFile', s) = load_sym env h ''cuLinkAddFile_v2'' s;
          (cuLinkAddData', s) = load_sym env h ''cuLinkAddData_v2'' s;
          (cuLaunchCooperativeKernel', s) = load_sym env h ''cuLaunchCooperativeKernel'' s;
          (cuLaunchKernel', s) = load_sym env h ''cuLaunchKernel'' s;
          (cuLaunchKernelEx', s) = load_sym env h ''cuLaunchKernelEx'' s;
          (cuTensorMapEncodeTiled', s) = load_sym env h ''cuTensorMapEncodeTiled'' s;
          (cuMemcpyDtoH', s) = load_sym env h ''cuMemcpyDtoH_v2'' s;
          (cuDeviceGetAttribute', s) = load_sym env h ''cuDeviceGetAttribute'' s;
          (cuOccupancyMaxActiveClusters', s) = load_sym env h ''cuOccupancyMaxActiveClusters'' s
          in (Inr \<lparr>handle = h,
                 fn_cuGetErrorName = cuGetErrorName',
                 fn_cuGetErrorString = cuGetErrorString',
                 fn_cuFuncSetAttribute = cuFuncSetAttribute',
                 fn_cuLinkComplete = cuLinkComplete',
                 fn_cuModuleUnload = cuModuleUnload',
                 fn_cuLinkDestroy = cuLinkDestroy',
                 fn_cuModuleLoadData = cuModuleLoadData',
                 fn_cuLinkCreate = cuLinkCreate',
                 fn_cuModuleGetFunction = cuModuleGetFunction',
                 fn_cuModuleGetGlobal = cuModuleGetGlobal',
                 fn_cuLibraryGetKernel = cuLibraryGetKernel',
                 fn_cuLibraryLoadData = cuLibraryLoadData',
                 fn_cuLibraryGetGlobal = cuLibraryGetGlobal',
                 fn_cuLibraryUnload = cuLibraryUnload',
                 fn_cuKernelSetAttribute = cuKernelSetAttribute',
                 fn_cuCtxGetDevice = cuCtxGetDevice',
                 fn_cuLinkAddFile = cuLinkAddFile',
                 fn_cuLinkAddData = cuLinkAddData',
                 fn_cuLaunchCooperativeKernel = cuLaunchCooperativeKernel',
                 fn_cuLaunchKernel = cuLaunchKernel',
                 fn_cuLaunchKernelEx = cuLaunchKernelEx',
                 fn_cuTensorMapEncodeTiled = cuTensorMapEncodeTiled',
                 fn_cuMemcpyDtoH = cuMemcpyDtoH',
                 fn_cuDeviceGetAttribute = cuDeviceGetAttribute',
                 fn_cuOccupancyMaxActiveClusters = cuOccupancyMaxActiveClusters'\<rparr>, s)))"

text \<open>\<open>CUDADriverWrapper::~CUDADriverWrapper()\<close>\<close>

definition CUDADriverWrapper_dtor :: "CUDADriverWrapper \<Rightarrow> 'd world \<Rightarrow> 'd world" where
  "CUDADriverWrapper_dtor this s = dllClose (handle this) s"

text \<open>The function pointers of an instance, in the order the constructor assigns them.\<close>

definition table :: "CUDADriverWrapper \<Rightarrow> ptr list" where
  "table this =
     [fn_cuGetErrorName this,
      fn_cuGetErrorString this,
      fn_cuFuncSetAttribute this,
      fn_cuLinkComplete this,
      fn_cuModuleUnload this,
      fn_cuLinkDestroy this,
      fn_cuModuleLoadData this,
      fn_cuLinkCreate this,
      fn_cuModuleGetFunction this,
      fn_cuModuleGetGlobal this,
      fn_cuLibraryGetKernel this,
      fn_cuLibraryLoadData this,
      fn_cuLibraryGetGlobal this,
      fn_cuLibraryUnload this,
      fn_cuKernelSetAttribute this,
      fn_cuCtxGetDevice this,
      fn_cuLinkAddFile this,
      fn_cuLinkAddData this,
      fn_cuLaunchCooperativeKernel this,
      fn_cuLaunchKernel this,
      fn_cuLaunchKernelEx this,
      fn_cuTensorMapEncodeTiled this,
      fn_cuMemcpyDtoH this,
      fn_cuDeviceGetAttribute this,
      fn_cuOccupancyMaxActiveClusters this]"

subsection \<open>\<open>std::shared_ptr\<close> and \<open>std::weak_ptr\<close>\<close>

text \<open>
  \<open>w.lock()\<close>: a new strong reference if the object is still alive, else the empty
  pointer.
\<close>

definition weak_lock :: "weak_ptr \<Rightarrow> 'd world \<Rightarrow> shared_ptr \<times> 'd world" where
  "weak_lock w s =
     (case w of
        None \<Rightarrow> (None, s)
      | Some a \<Rightarrow>
          if a < length (blocks s) \<and> 0 < use_count (blocks s ! a) then
            (Some a, s\<lparr>blocks := (blocks s)[a :=
                (blocks s ! a)\<lparr>use_count := use_count (blocks s ! a) + 1\<rparr>]\<rparr>)
          else (None, s))"

text \<open>\<open>std::shared_ptr<CUDADriverWrapper>(new CUDADriverWrapper())\<close>, the object given.\<close>

definition new_shared :: "CUDADriverWrapper \<Rightarrow> 'd world \<Rightarrow> shared_ptr \<times> 'd world" where
  "new_shared this s =
     (Some (length (blocks s)), s\<lparr>blocks := blocks s @ [\<lparr>obj = this, use_count = 1\<rparr>]\<rparr>)"

text \<open>
  A holder drops its \<open>shared_ptr\<close>: the strong count goes down, and the holder that
  takes it to zero runs the destructor.
\<close>

definition release :: "shared_ptr \<Rightarrow> 'd world \<Rightarrow> 'd world" where
  "release p s =
     (case p of
        None \<Rightarrow> s
      | Some a \<Rightarrow>
          if a < length (blocks s) \<and> 0 < use_count (blocks s ! a) then
            let cb = blocks s ! a;
                n = use_count cb - 1;
                s = s\<lparr>blocks := (blocks s)[a := cb\<lparr>use_count := n\<rparr>]\<rparr>
            in if n = 0 then CUDADriverWrapper_dtor (obj cb) s else s
          else s)"

text \<open>\<open>p->member\<close>: the object a non-empty \<open>shared_ptr\<close> points to.\<close>

definition deref_shared :: "'d world \<Rightarrow> shared_ptr \<Rightarrow> CUDADriverWrapper option" where
  "deref_shared s p =
     (case p of
        None \<Rightarrow> None
      | Some a \<Rightarrow>
          if a < length (blocks s) \<and> 0 < use_count (blocks s ! a)
          then Some (obj (blocks s ! a)) else None)"

subsection \<open>\<open>CUDADriverWrapper::getInstance\<close>\<close>

text \<open>
  One thread's call, run from entry to return. The mutex is free when the thread
  reaches \<open>lock_guard\<close> and is released when the call ends, also when the constructor
  fails; \<open>result\<close> is returned to the caller, who then holds one strong reference.
\<close>

definition getInstance :: "'d env \<Rightarrow> 'd world \<Rightarrow> (failure + shared_ptr) \<times> 'd world" where
  "getInstance env s =
     (let (result, s) = weak_lock (instance_wp s) s
      in if result \<noteq> None then (Inr result, s)
         else
           let (result, s) = weak_lock (instance_wp s) s
           in if result = None then
                (case CUDADriverWrapper_ctor env s of
                   (Inl e, s) \<Rightarrow> (Inl e, s)
                 | (Inr this, s) \<Rightarrow>
                     let (result, s) = new_shared this s;
                         s = s\<lparr>instance_wp := result\<rparr>
                     in (Inr result, s))
              else (Inr result, s))"

subsection \<open>Forwarding methods\<close>

text \<open>
  \<open>(*f)(args)\<close>: the call through a stored function pointer. The native function runs
  on the process as it is at the call and returns its result code; a null pointer, or
  an address with no function behind it, is a fault.
\<close>

type_synonym 'd native = "cval list \<Rightarrow> 'd world \<Rightarrow> cint \<times> 'd world"

definition call_fn ::
    "'d env \<Rightarrow> ptr \<Rightarrow> cval list \<Rightarrow> 'd world \<Rightarrow> (failure + cint) \<times> 'd world" where
  "call_fn env f args s =
     (if f = nullptr then (Inl BadFunctionPointer, s)
      else case code_at env f of
             None \<Rightarrow> (Inl BadFunctionPointer, s)
           | Some fn \<Rightarrow> (let (r, s) = fn args s in (Inr r, s)))"

text \<open>\<open>*config\<close>: the configuration a pointer refers to, if it refers to one.\<close>

definition deref_config :: "'d world \<Rightarrow> ptr \<Rightarrow> CUlaunchConfig option" where
  "deref_config s p = (if p = nullptr then None else configs s p)"

definition cuGetErrorName ::
    "'d env \<Rightarrow> CUDADriverWrapper \<Rightarrow> cint \<Rightarrow>
       ptr
       \<Rightarrow> 'd world \<Rightarrow> (failure + cint) \<times> 'd world" where
  "cuGetErrorName env this error pStr s =
     call_fn env (fn_cuGetErrorName this)
       [VEnum error, VPtr pStr] s"

definition cuGetErrorString ::
    "'d env \<Rightarrow> CUDADriverWrapper \<Rightarrow> cint \<Rightarrow>
       ptr
       \<Rightarrow> 'd world \<Rightarrow> (failure + cint) \<times> 'd world" where
  "cuGetErrorString env this error pStr s =
     call_fn env (fn_cuGetErrorString this)
       [VEnum error, VPtr pStr] s"

definition cuFuncSetAttribute ::
    "'d env \<Rightarrow> CUDADriverWrapper \<Rightarrow> ptr \<Rightarrow>
       cint \<Rightarrow> cint
       \<Rightarrow> 'd world \<Rightarrow> (failure + cint) \<times> 'd world" where
  "cuFuncSetAttribute env this hfunc attrib val s =
     call_fn env (fn_cuFuncSetAttribute this)
       [VPtr hfunc, VEnum attrib, VInt val] s"

definition cuLinkComplete ::
    "'d env \<Rightarrow> CUDADriverWrapper \<Rightarrow> ptr \<Rightarrow>
       ptr \<Rightarrow> ptr
       \<Rightarrow> 'd world \<Rightarrow> (failure + cint) \<times> 'd world" where
  "cuLinkComplete env this state cubinOut sizeOut s =
     call_fn env (fn_cuLinkComplete this)
       [VPtr state, VPtr cubinOut, VPtr sizeOut] s"

definition cuModuleUnload ::
    "'d env \<Rightarrow> CUDADriverWrapper \<Rightarrow> ptr
       \<Rightarrow> 'd world \<Rightarrow> (failure + cint) \<times> 'd world" where
  "cuModuleUnload env this hmod s =
     call_fn env (fn_cuModuleUnload this)
       [VPtr hmod] s"

definition cuLinkDestroy ::
    "'d env \<Rightarrow> CUDADriverWrapper \<Rightarrow> ptr
       \<Rightarrow> 'd world \<Rightarrow> (failure + cint) \<times> 'd world" where
  "cuLinkDestroy env this state s =
     call_fn env (fn_cuLinkDestroy this)
       [VPtr state] s"

definition cuModuleLoadData ::
    "'d env \<Rightarrow> CUDADriverWrapper \<Rightarrow> ptr \<Rightarrow>
       ptr
       \<Rightarrow> 'd world \<Rightarrow> (failure + cint) \<times> 'd world" where
  "cuModuleLoadData env this module image' s =
     call_fn env (fn_cuModuleLoadData this)
       [VPtr module, VPtr image'] s"

definition cuLinkCreate ::
    "'d env \<Rightarrow> CUDADriverWrapper \<Rightarrow> uint \<Rightarrow>
       ptr \<Rightarrow> ptr \<Rightarrow> ptr
       \<Rightarrow> 'd world \<Rightarrow> (failure + cint) \<times> 'd world" where
  "cuLinkCreate env this numOptions options optionValues stateOut s =
     call_fn env (fn_cuLinkCreate this)
       [VUInt numOptions, VPtr options, VPtr optionValues, VPtr stateOut] s"

definition cuModuleGetFunction ::
    "'d env \<Rightarrow> CUDADriverWrapper \<Rightarrow> ptr \<Rightarrow>
       ptr \<Rightarrow> ptr
       \<Rightarrow> 'd world \<Rightarrow> (failure + cint) \<times> 'd world" where
  "cuModuleGetFunction env this hfunc hmod name s =
     call_fn env (fn_cuModuleGetFunction this)
       [VPtr hfunc, VPtr hmod, VPtr name] s"

definition cuModuleGetGlobal ::
    "'d env \<Rightarrow> CUDADriverWrapper \<Rightarrow> ptr \<Rightarrow>
       ptr \<Rightarrow> ptr \<Rightarrow> ptr
       \<Rightarrow> 'd world \<Rightarrow> (failure + cint) \<times> 'd world" where
  "cuModuleGetGlobal env this dptr bytes hmod name s =
     call_fn env (fn_cuModuleGetGlobal this)
       [VPtr dptr, VPtr bytes, VPtr hmod, VPtr name] s"

definition cuLibraryGetKernel ::
    "'d env \<Rightarrow> CUDADriverWrapper \<Rightarrow> ptr \<Rightarrow>
       ptr \<Rightarrow> ptr
       \<Rightarrow> 'd world \<Rightarrow> (failure + cint) \<times> 'd world" where
  "cuLibraryGetKernel env this pKernel library name s =
     call_fn env (fn_cuLibraryGetKernel this)
       [VPtr pKernel, VPtr library, VPtr name] s"

definition cuLibraryLoadData ::
    "'d env \<Rightarrow> CUDADriverWrapper \<Rightarrow> ptr \<Rightarrow>
       ptr \<Rightarrow> ptr \<Rightarrow> ptr \<Rightarrow> uint \<Rightarrow>
       ptr \<Rightarrow> ptr \<Rightarrow> uint
       \<Rightarrow> 'd world \<Rightarrow> (failure + cint) \<times> 'd world" where
  "cuLibraryLoadData env this library code jitOptions jitOptionsValues numJitOptions libraryOptions
      libraryOptionValues numLibraryOptions s =
     call_fn env (fn_cuLibraryLoadData this)
       [VPtr library, VPtr code, VPtr jitOptions, VPtr jitOptionsValues,
        VUInt numJitOptions, VPtr libraryOptions, VPtr libraryOptionValues,
        VUInt numLibraryOptions] s"

definition cuLibraryGetGlobal ::
    "'d env \<Rightarrow> CUDADriverWrapper \<Rightarrow> ptr \<Rightarrow>
       ptr \<Rightarrow> ptr \<Rightarrow> ptr
       \<Rightarrow> 'd world \<Rightarrow> (failure + cint) \<times> 'd world" where
  "cuLibraryGetGlobal env this dptr bytes library name s =
     call_fn env (fn_cuLibraryGetGlobal this)
       [VPtr dptr, VPtr bytes, VPtr library, VPtr name] s"

definition cuLibraryUnload ::
    "'d env \<Rightarrow> CUDADriverWrapper \<Rightarrow> ptr
       \<Rightarrow> 'd world \<Rightarrow> (failure + cint) \<times> 'd world" where
  "cuLibraryUnload env this library s =
     call_fn env (fn_cuLibraryUnload this)
       [VPtr library] s"

definition cuKernelSetAttribute ::
    "'d env \<Rightarrow> CUDADriverWrapper \<Rightarrow> cint \<Rightarrow>
       cint \<Rightarrow> ptr \<Rightarrow> cint
       \<Rightarrow> 'd world \<Rightarrow> (failure + cint) \<times> 'd world" where
  "cuKernelSetAttribute env this attrib val kernel' dev s =
     call_fn env (fn_cuKernelSetAttribute this)
       [VEnum attrib, VInt val, VPtr kernel', VInt dev] s"

definition cuCtxGetDevice ::
    "'d env \<Rightarrow> CUDADriverWrapper \<Rightarrow> ptr
       \<Rightarrow> 'd world \<Rightarrow> (failure + cint) \<times> 'd world" where
  "cuCtxGetDevice env this device s =
     call_fn env (fn_cuCtxGetDevice this)
       [VPtr device] s"

definition cuLinkAddFile ::
    "'d env \<Rightarrow> CUDADriverWrapper \<Rightarrow> ptr \<Rightarrow>
       cint \<Rightarrow> ptr \<Rightarrow> uint \<Rightarrow> ptr \<Rightarrow>
       ptr
       \<Rightarrow> 'd world \<Rightarrow> (failure + cint) \<times> 'd world" where
  "cuLinkAddFile env this state type' path numOptions options optionValues s =
     call_fn env (fn_cuLinkAddFile this)
       [VPtr state, VEnum type', VPtr path, VUInt numOptions, VPtr options,
        VPtr optionValues] s"

definition cuLinkAddData ::
    "'d env \<Rightarrow> CUDADriverWrapper \<Rightarrow> ptr \<Rightarrow>
       cint \<Rightarrow> ptr \<Rightarrow> 64 word \<Rightarrow> ptr \<Rightarrow>
       uint \<Rightarrow> ptr \<Rightarrow> ptr
       \<Rightarrow> 'd world \<Rightarrow> (failure + cint) \<times> 'd world" where
  "cuLinkAddData env this state type' data size' name numOptions options optionValues s =
     call_fn env (fn_cuLinkAddData this)
       [VPtr state, VEnum type', VPtr data, VSize size', VPtr name, VUInt numOptions,
        VPtr options, VPtr optionValues] s"

definition cuLaunchCooperativeKernel ::
    "'d env \<Rightarrow> CUDADriverWrapper \<Rightarrow> ptr \<Rightarrow>
       uint \<Rightarrow> uint \<Rightarrow> uint \<Rightarrow> uint \<Rightarrow>
       uint \<Rightarrow> uint \<Rightarrow> uint \<Rightarrow> ptr \<Rightarrow>
       ptr
       \<Rightarrow> 'd world \<Rightarrow> (failure + cint) \<times> 'd world" where
  "cuLaunchCooperativeKernel env this f gridDimX' gridDimY' gridDimZ' blockDimX' blockDimY' blockDimZ' sharedMemBytes'
      hStream' kernelParams s =
     call_fn env (fn_cuLaunchCooperativeKernel this)
       [VPtr f, VUInt gridDimX', VUInt gridDimY', VUInt gridDimZ', VUInt blockDimX',
        VUInt blockDimY', VUInt blockDimZ', VUInt sharedMemBytes', VPtr hStream',
        VPtr kernelParams] s"

definition cuLaunchKernel ::
    "'d env \<Rightarrow> CUDADriverWrapper \<Rightarrow> ptr \<Rightarrow>
       uint \<Rightarrow> uint \<Rightarrow> uint \<Rightarrow> uint \<Rightarrow>
       uint \<Rightarrow> uint \<Rightarrow> uint \<Rightarrow> ptr \<Rightarrow>
       ptr \<Rightarrow> ptr
       \<Rightarrow> 'd world \<Rightarrow> (failure + cint) \<times> 'd world" where
  "cuLaunchKernel env this f gridDimX' gridDimY' gridDimZ' blockDimX' blockDimY' blockDimZ' sharedMemBytes'
      hStream' kernelParams extra s =
     call_fn env (fn_cuLaunchKernel this)
       [VPtr f, VUInt gridDimX', VUInt gridDimY', VUInt gridDimZ', VUInt blockDimX',
        VUInt blockDimY', VUInt blockDimZ', VUInt sharedMemBytes', VPtr hStream',
        VPtr kernelParams, VPtr extra] s"

definition cuTensorMapEncodeTiled ::
    "'d env \<Rightarrow> CUDADriverWrapper \<Rightarrow> ptr \<Rightarrow>
       cint \<Rightarrow> uint \<Rightarrow> ptr \<Rightarrow> ptr \<Rightarrow>
       ptr \<Rightarrow> ptr \<Rightarrow> ptr \<Rightarrow> cint \<Rightarrow>
       cint \<Rightarrow> cint \<Rightarrow> cint
       \<Rightarrow> 'd world \<Rightarrow> (failure + cint) \<times> 'd world" where
  "cuTensorMapEncodeTiled env this tensorMap tensorDataType tensorRank globalAddress globalDim globalStrides boxDim
      elementStrides interleave swizzle l2Promotion oobFill s =
     call_fn env (fn_cuTensorMapEncodeTiled this)
       [VPtr tensorMap, VEnum tensorDataType, VUInt tensorRank, VPtr globalAddress,
        VPtr globalDim, VPtr globalStrides, VPtr boxDim, VPtr elementStrides,
        VEnum interleave, VEnum swizzle, VEnum l2Promotion, VEnum oobFill] s"

definition cuMemcpyDtoH ::
    "'d env \<Rightarrow> CUDADriverWrapper \<Rightarrow> ptr \<Rightarrow>
       64 word \<Rightarrow> 64 word
       \<Rightarrow> 'd world \<Rightarrow> (failure + cint) \<times> 'd world" where
  "cuMemcpyDtoH env this dstHost srcDevice ByteCount s =
     call_fn env (fn_cuMemcpyDtoH this)
       [VPtr dstHost, VDevPtr srcDevice, VSize ByteCount] s"

definition cuDeviceGetAttribute ::
    "'d env \<Rightarrow> CUDADriverWrapper \<Rightarrow> ptr \<Rightarrow>
       cint \<Rightarrow> cint
       \<Rightarrow> 'd world \<Rightarrow> (failure + cint) \<times> 'd world" where
  "cuDeviceGetAttribute env this pi attrib dev s =
     call_fn env (fn_cuDeviceGetAttribute this)
       [VPtr pi, VEnum attrib, VInt dev] s"

definition cuOccupancyMaxActiveClusters ::
    "'d env \<Rightarrow> CUDADriverWrapper \<Rightarrow> ptr \<Rightarrow>
       ptr \<Rightarrow> ptr
       \<Rightarrow> 'd world \<Rightarrow> (failure + cint) \<times> 'd world" where
  "cuOccupancyMaxActiveClusters env this maxActiveClusters f config s =
     call_fn env (fn_cuOccupancyMaxActiveClusters this)
       [VPtr maxActiveClusters, VPtr f, VPtr config] s"

text \<open>
  \<open>cuLaunchKernelEx\<close>: the configuration is formatted and logged, then the debug check,
  then the call.
\<close>

definition cuLaunchKernelEx ::
    "'d env \<Rightarrow> CUDADriverWrapper \<Rightarrow> ptr \<Rightarrow> ptr \<Rightarrow> ptr \<Rightarrow> ptr
       \<Rightarrow> 'd world \<Rightarrow> (failure + cint) \<times> 'd world" where
  "cuLaunchKernelEx env this config f kernelParams extra s =
     (case deref_config s config of
        None \<Rightarrow> (Inl NullDereference, s)
      | Some c \<Rightarrow>
          (case stringify_launch_config c of
             Inl e \<Rightarrow> (Inl e, s)
           | Inr str \<Rightarrow>
               let s = TLLM_LOG_DEBUG (''Launch config: '' @ str) s
               in (case TLLM_CHECK_DEBUG_WITH_INFO env
                          ((extra \<noteq> nullptr) \<noteq> (kernelParams \<noteq> nullptr))
                          ''Exactly one of 'extra' and 'kernelParams' should be set.'' of
                     Some e \<Rightarrow> (Inl e, s)
                   | None \<Rightarrow>
                       call_fn env (fn_cuLaunchKernelEx this)
                         [VPtr config, VPtr f, VPtr kernelParams, VPtr extra] s)))"

section \<open>Notions used to state the properties\<close>

text \<open>The newline-terminated lines of a text, without their terminators.\<close>

fun lines_of :: "string \<Rightarrow> string list" where
  "lines_of [] = []"
| "lines_of (c # cs) =
     (if c = CHR 0x0A then [] # lines_of cs
      else case lines_of cs of [] \<Rightarrow> [[c]] | l # ls \<Rightarrow> (c # l) # ls)"

text \<open>The five lines that \<open>stringify_launch_config\<close> writes before the attributes.\<close>

definition header_text :: "CUlaunchConfig \<Rightarrow> string list" where
  "header_text config =
     [''Grid Dimensions: ('' @ dec_digits (unat (gridDimX config)) @ '', ''
        @ dec_digits (unat (gridDimY config)) @ '', ''
        @ dec_digits (unat (gridDimZ config)) @ '')'',
      ''Block Dimensions: ('' @ dec_digits (unat (blockDimX config)) @ '', ''
        @ dec_digits (unat (blockDimY config)) @ '', ''
        @ dec_digits (unat (blockDimZ config)) @ '')'',
      ''Shared Memory: '' @ dec_digits (unat (sharedMemBytes config)) @ '' bytes'',
      ''Stream: '' @ (if hStream config \<noteq> nullptr then ''Custom'' else ''Default'')
        @ '' (0x'' @ hex_digits (unat (hStream config)) @ '')'',
      ''Attributes ('' @ hex_digits (unat (numAttrs config)) @ ''):'']"

text \<open>The exported names the constructor hands to \<open>load_sym\<close>, in call order.\<close>

definition symbol_names :: "string list" where
  "symbol_names =
     [''cuGetErrorName'', ''cuGetErrorString'', ''cuFuncSetAttribute'', ''cuLinkComplete'',
      ''cuModuleUnload'', ''cuLinkDestroy'', ''cuModuleLoadData'', ''cuLinkCreate_v2'',
      ''cuModuleGetFunction'', ''cuModuleGetGlobal_v2'', ''cuLibraryGetKernel'',
      ''cuLibraryLoadData'', ''cuLibraryGetGlobal'', ''cuLibraryUnload'',
      ''cuKernelSetAttribute'', ''cuCtxGetDevice'', ''cuLinkAddFile_v2'', ''cuLinkAddData_v2'',
      ''cuLaunchCooperativeKernel'', ''cuLaunchKernel'', ''cuLaunchKernelEx'',
      ''cuTensorMapEncodeTiled'', ''cuMemcpyDtoH_v2'', ''cuDeviceGetAttribute'',
      ''cuOccupancyMaxActiveClusters'']"

subsection \<open>Concrete inputs\<close>

text \<open>
  A configuration with a cluster dimension, a priority (\<open>0xFFFFFFFF\<close> is the \<open>int\<close>
  \<open>-1\<close>) and an attribute kind the code does not know.
\<close>

definition example_config :: CUlaunchConfig where
  "example_config =
     \<lparr>gridDimX = 128, gridDimY = 2, gridDimZ = 1,
      blockDimX = 256, blockDimY = 1, blockDimZ = 1,
      sharedMemBytes = 49152, hStream = 0x7F00,
      attrs =
        [\<lparr>attr_id = CU_LAUNCH_ATTRIBUTE_CLUSTER_DIMENSION,
          attr_value = \<lparr>clusterDim_x = 2, clusterDim_y = 1, clusterDim_z = 1, priority = 0\<rparr>\<rparr>,
         \<lparr>attr_id = CU_LAUNCH_ATTRIBUTE_PRIORITY,
          attr_value = \<lparr>clusterDim_x = 0, clusterDim_y = 0, clusterDim_z = 0,
                        priority = 0xFFFFFFFF\<rparr>\<rparr>,
         \<lparr>attr_id = 99,
          attr_value = \<lparr>clusterDim_x = 0, clusterDim_y = 0, clusterDim_z = 0, priority = 0\<rparr>\<rparr>],
      numAttrs = 3\<rparr>"

text \<open>
  A loader that finds \<open>libcuda.so.1\<close> (each open yields another handle), where every
  symbol resolves and every native function returns its number of arguments and records
  the call; the same with a driver too old to export \<open>cuLaunchKernelEx\<close>; and a
  machine without the library.
\<close>

definition fake_stub :: "ptr \<Rightarrow> (ptr \<times> cval list) list native" where
  "fake_stub p args s = (of_nat (length args), s\<lparr>driver := driver s @ [(p, args)]\<rparr>)"

definition fake_env :: "(ptr \<times> cval list) list env" where
  "fake_env =
     \<lparr>platform_of = Posix,
      open_result = (\<lambda>calls file.
         if file = ''libcuda.so.1'' then 0x1000 * (1 + of_nat (length calls)) else 0),
      sym_result = (\<lambda>h name. h + of_nat (length name)),
      code_at = (\<lambda>p. if p = 0 then None else Some (fake_stub p)),
      check_debug_enabled = True\<rparr>"

definition old_driver_env :: "(ptr \<times> cval list) list env" where
  "old_driver_env =
     fake_env\<lparr>sym_result := (\<lambda>h name.
        if name = ''cuLaunchKernelEx'' then 0 else h + of_nat (length name))\<rparr>"

definition no_driver_env :: "(ptr \<times> cval list) list env" where
  "no_driver_env = fake_env\<lparr>open_result := (\<lambda>calls file. 0)\<rparr>"

definition initial_world :: "(ptr \<times> cval list) list world" where
  "initial_world =
     \<lparr>dll_calls = [], log_sink = [], configs = (\<lambda>p. None), driver = [],
      blocks = [], instance_wp = None\<rparr>"

text \<open>
  An instance whose pointers are 25 distinct addresses, and a process that holds the
  example configuration at address \<open>0x5000\<close>.
\<close>

definition fake_wrapper :: CUDADriverWrapper where
  "fake_wrapper =
     \<lparr>handle = 0x1000,
      fn_cuGetErrorName = 0x2008,
      fn_cuGetErrorString = 0x2010,
      fn_cuFuncSetAttribute = 0x2018,
      fn_cuLinkComplete = 0x2020,
      fn_cuModuleUnload = 0x2028,
      fn_cuLinkDestroy = 0x2030,
      fn_cuModuleLoadData = 0x2038,
      fn_cuLinkCreate = 0x2040,
      fn_cuModuleGetFunction = 0x2048,
      fn_cuModuleGetGlobal = 0x2050,
      fn_cuLibraryGetKernel = 0x2058,
      fn_cuLibraryLoadData = 0x2060,
      fn_cuLibraryGetGlobal = 0x2068,
      fn_cuLibraryUnload = 0x2070,
      fn_cuKernelSetAttribute = 0x2078,
      fn_cuCtxGetDevice = 0x2080,
      fn_cuLinkAddFile = 0x2088,
      fn_cuLinkAddData = 0x2090,
      fn_cuLaunchCooperativeKernel = 0x2098,
      fn_cuLaunchKernel = 0x20A0,
      fn_cuLaunchKernelEx = 0x20A8,
      fn_cuTensorMapEncodeTiled = 0x20B0,
      fn_cuMemcpyDtoH = 0x20B8,
      fn_cuDeviceGetAttribute = 0x20C0,
      fn_cuOccupancyMaxActiveClusters = 0x20C8\<rparr>"

definition launch_world :: "(ptr \<times> cval list) list world" where
  "launch_world =
     initial_world\<lparr>configs := (\<lambda>p. if p = 0x5000 then Some example_config else None)\<rparr>"

text \<open>
  A native function that reports how many lines the logger holds when it is called, and
  the loader whose every address runs it.
\<close>

definition log_probe_stub :: "(ptr \<times> cval list) list native" where
  "log_probe_stub args s = (of_nat (length (log_sink s)), s)"

definition probe_env :: "(ptr \<times> cval list) list env" where
  "probe_env = fake_env\<lparr>code_at := (\<lambda>p. if p = 0 then None else Some log_probe_stub)\<rparr>"

text \<open>The process after two successful calls of \<open>getInstance\<close>, both results still held.\<close>

definition world_two_holders :: "(ptr \<times> cval list) list world" where
  "world_two_holders = snd (getInstance fake_env (snd (getInstance fake_env initial_world)))"

section \<open>Properties\<close>

subsection \<open>The launch configuration trace\<close>

lemma buf_put_str: "buf (put_str ss s) = buf ss @ s"
  by (simp add: put_str_def)

lemma base_put_str: "base (put_str ss s) = base ss"
  by (simp add: put_str_def)

lemma buf_put_unsigned:
  "buf (put_unsigned ss n) =
     buf ss @ (case base ss of Dec \<Rightarrow> dec_digits n | Hex \<Rightarrow> hex_digits n)"
  by (simp add: put_unsigned_def buf_put_str)

lemma base_put_unsigned: "base (put_unsigned ss n) = base ss"
  by (simp add: put_unsigned_def base_put_str)

lemma base_put_int: "base (put_int ss n) = base ss"
  by (simp add: put_int_def base_put_str)

lemma base_describe_attr: "base (describe_attr ss attr) = base ss"
  by (simp add: describe_attr_def Let_def base_put_str base_put_unsigned base_put_int)

lemma buf_describe_attr:
  "buf (describe_attr ss attr) = buf ss @ buf (describe_attr \<lparr>buf = [], base = base ss\<rparr> attr)"
  by (simp add: describe_attr_def Let_def put_str_def put_unsigned_def put_int_def)

lemma word_less_Suc: "(i::32 word) < n \<Longrightarrow> unat (i + 1) = Suc (unat i)"
  by (metis (no_types, lifting) add.commute add_0 inc_i inc_le
        unat_plus_simple unsigned_0 unsigned_1 word_gt_0 Suc_eq_plus1)

lemma attrs_loop_eq:
  "unat (numAttrs config) \<le> length (attrs config) \<Longrightarrow>
   attrs_loop config i ss =
     Inr \<lparr>buf = buf ss @ concat (map (\<lambda>k. ''  [''
              @ (case base ss of Dec \<Rightarrow> dec_digits k | Hex \<Rightarrow> hex_digits k) @ ''] ''
              @ buf (describe_attr \<lparr>buf = [], base = base ss\<rparr> (attrs config ! k)) @ newline)
            [unat i ..< unat (numAttrs config)]), base = base ss\<rparr>"
proof (induction config i ss rule: attrs_loop.induct)
  case (1 config i ss)
  show ?case
  proof (cases "i < numAttrs config")
    case True
    then have lt: "unat i < unat (numAttrs config)" by (simp add: word_less_nat_alt)
    with "1.prems" have inb: "unat i < length (attrs config)" by simp
    have suc: "unat (i + 1) = Suc (unat i)" using True by (rule word_less_Suc)
    have up: "[unat i ..< unat (numAttrs config)] = unat i # [Suc (unat i) ..< unat (numAttrs config)]"
      using lt by (simp add: upt_conv_Cons)
    show ?thesis
      apply (subst attrs_loop.simps)
      apply (simp only: True inb if_True Let_def)
      apply (subst "1.IH" [OF True inb refl refl refl refl refl refl "1.prems"])
      apply (simp add: suc up buf_put_str base_put_str buf_put_unsigned base_put_unsigned base_describe_attr)
      apply (subst buf_describe_attr)
      apply (simp add: buf_put_str base_put_str buf_put_unsigned base_put_unsigned)
      done
  next
    case False
    then have "\<not> unat i < unat (numAttrs config)" by (simp add: word_less_nat_alt)
    then show ?thesis
      by (subst attrs_loop.simps) (simp add: False)
  qed
qed

lemma stringify_closed:
  assumes "unat (numAttrs config) \<le> length (attrs config)"
  shows "stringify_launch_config config =
     Inr (concat (map (\<lambda>l. l @ newline) (header_text config))
        @ concat (map (\<lambda>l. l @ newline)
            (map (\<lambda>k. ''  ['' @ hex_digits k @ ''] ''
                @ buf (describe_attr \<lparr>buf = [], base = Hex\<rparr> (attrs config ! k)))
              [0 ..< unat (numAttrs config)])))"
  unfolding stringify_launch_config_def Let_def
  by (simp add: attrs_loop_eq [OF assms] header_text_def new_stringstream_def put_hex_def
      buf_put_str base_put_str buf_put_unsigned base_put_unsigned comp_def)

lemma lines_of_line: "CHR 0x0A \<notin> set l \<Longrightarrow> lines_of (l @ newline @ rest) = l # lines_of rest"
  by (induction l) (auto simp: newline_def)

lemma digit_char_no_newline: "d < 16 \<Longrightarrow> CHR 0x0A \<noteq> digit_char d"
proof -
  assume "d < 16"
  then have "digit_char d \<in> set ''0123456789abcdef''"
    unfolding digit_char_def by (intro nth_mem) simp
  then show ?thesis by auto
qed

lemma dec_digits_no_newline: "CHR 0x0A \<notin> set (dec_digits n)"
proof (induction n rule: dec_digits.induct)
  case (1 n)
  show ?case
  proof (cases "n < 10")
    case True
    then show ?thesis by (subst dec_digits.simps) (simp add: digit_char_no_newline)
  next
    case False
    have "n mod 10 < 16" by (rule less_trans [OF mod_less_divisor]) simp_all
    with False "1.IH" show ?thesis
      by (subst dec_digits.simps) (simp add: digit_char_no_newline)
  qed
qed

lemma hex_digits_no_newline: "CHR 0x0A \<notin> set (hex_digits n)"
proof (induction n rule: hex_digits.induct)
  case (1 n)
  show ?case
  proof (cases "n < 16")
    case True
    then show ?thesis by (subst hex_digits.simps) (simp add: digit_char_no_newline)
  next
    case False
    have "n mod 16 < 16" by simp
    with False "1.IH" show ?thesis
      by (subst hex_digits.simps) (simp add: digit_char_no_newline)
  qed
qed

lemma describe_attr_hex:
  "buf (describe_attr \<lparr>buf = [], base = Hex\<rparr> attr) =
     (if attr_id attr = CU_LAUNCH_ATTRIBUTE_CLUSTER_DIMENSION then
        ''Cluster Dimension: ('' @ hex_digits (unat (clusterDim_x (attr_value attr))) @ '', ''
          @ hex_digits (unat (clusterDim_y (attr_value attr))) @ '', ''
          @ hex_digits (unat (clusterDim_z (attr_value attr))) @ '')''
      else if attr_id attr = CU_LAUNCH_ATTRIBUTE_PRIORITY then
        ''Priority: '' @ hex_digits (unat (priority (attr_value attr)))
      else ''Unknown Attribute (ID='' @ hex_digits (unat (attr_id attr)) @ '')'')"
  by (simp add: describe_attr_def Let_def put_str_def put_unsigned_def put_int_def)

lemma describe_attr_no_newline:
  "CHR 0x0A \<notin> set (buf (describe_attr \<lparr>buf = [], base = Hex\<rparr> attr))"
  by (simp add: describe_attr_hex hex_digits_no_newline)

lemma header_no_newline: "l \<in> set (header_text config) \<Longrightarrow> CHR 0x0A \<notin> set l"
  by (auto simp: header_text_def hex_digits_no_newline dec_digits_no_newline split: if_splits)

lemma lines_of_concat:
  "(\<And>l. l \<in> set ls \<Longrightarrow> CHR 0x0A \<notin> set l) \<Longrightarrow>
   lines_of (concat (map (\<lambda>l. l @ newline) ls) @ rest) = ls @ lines_of rest"
  by (induction ls) (simp_all add: lines_of_line)

text \<open>
  C6. For every launch configuration whose attribute array holds the \<open>numAttrs\<close>
  attributes it announces, \<open>stringify_launch_config\<close> returns a trace, and the trace is:
  the grid dimensions, the block dimensions and the shared-memory byte count in decimal;
  the stream, \<open>Custom\<close> when non-null and \<open>Default\<close> when null, with its address in
  hexadecimal; the number of attributes; and one line per attribute, in order. A cluster
  dimension shows its three components, a priority its value, and any other kind the
  fallback \<open>Unknown Attribute\<close> with its identifier. Every integer written after the
  stream address is in hexadecimal, since \<open>std::hex\<close> stays in force.
\<close>

theorem stringify_launch_config_trace:
  assumes "unat (numAttrs config) \<le> length (attrs config)"
  shows "stringify_launch_config config = Inr (
      ''Grid Dimensions: ('' @ dec_digits (unat (gridDimX config)) @ '', ''
        @ dec_digits (unat (gridDimY config)) @ '', ''
        @ dec_digits (unat (gridDimZ config)) @ '')'' @ newline
    @ ''Block Dimensions: ('' @ dec_digits (unat (blockDimX config)) @ '', ''
        @ dec_digits (unat (blockDimY config)) @ '', ''
        @ dec_digits (unat (blockDimZ config)) @ '')'' @ newline
    @ ''Shared Memory: '' @ dec_digits (unat (sharedMemBytes config)) @ '' bytes'' @ newline
    @ ''Stream: '' @ (if hStream config = nullptr then ''Default'' else ''Custom'')
        @ '' (0x'' @ hex_digits (unat (hStream config)) @ '')'' @ newline
    @ ''Attributes ('' @ hex_digits (unat (numAttrs config)) @ ''):'' @ newline
    @ concat (map (\<lambda>i. ''  ['' @ hex_digits i @ ''] ''
        @ (if attr_id (attrs config ! i) = CU_LAUNCH_ATTRIBUTE_CLUSTER_DIMENSION then
             ''Cluster Dimension: (''
               @ hex_digits (unat (clusterDim_x (attr_value (attrs config ! i)))) @ '', ''
               @ hex_digits (unat (clusterDim_y (attr_value (attrs config ! i)))) @ '', ''
               @ hex_digits (unat (clusterDim_z (attr_value (attrs config ! i)))) @ '')''
           else if attr_id (attrs config ! i) = CU_LAUNCH_ATTRIBUTE_PRIORITY then
             ''Priority: '' @ hex_digits (unat (priority (attr_value (attrs config ! i))))
           else ''Unknown Attribute (ID='' @ hex_digits (unat (attr_id (attrs config ! i))) @ '')'')
        @ newline) [0 ..< unat (numAttrs config)]))"
  by (simp add: stringify_closed [OF assms] header_text_def describe_attr_hex comp_def)

theorem stringify_launch_config_trace_witness:
  "unat (numAttrs example_config) \<le> length (attrs example_config)
   \<and> stringify_launch_config example_config = Inr (
        ''Grid Dimensions: (128, 2, 1)'' @ newline
      @ ''Block Dimensions: (256, 1, 1)'' @ newline
      @ ''Shared Memory: 49152 bytes'' @ newline
      @ ''Stream: Custom (0x7f00)'' @ newline
      @ ''Attributes (3):'' @ newline
      @ ''  [0] Cluster Dimension: (2, 1, 1)'' @ newline
      @ ''  [1] Priority: ffffffff'' @ newline
      @ ''  [2] Unknown Attribute (ID=63)'' @ newline)"
proof -
  have h: "unat (numAttrs example_config) \<le> length (attrs example_config)"
    by (simp add: example_config_def)
  have up: "[0 ..< 3] = [0, 1, 2]" by (simp add: upt_rec)
  show ?thesis
    using stringify_launch_config_trace [OF h]
    by (simp add: example_config_def up nullptr_def
        CU_LAUNCH_ATTRIBUTE_CLUSTER_DIMENSION_def CU_LAUNCH_ATTRIBUTE_PRIORITY_def
        dec_digits.simps hex_digits.simps digit_char_def)
qed

text \<open>
  C10. \<open>stringify_launch_config\<close> is a total function of the configuration (the loop is
  defined with its termination proof). For a configuration with \<open>numAttrs\<close> attributes it
  returns a text whose lines after the five header lines are exactly \<open>numAttrs\<close>
  attribute lines, the one at position \<open>i\<close> carrying the index \<open>i\<close> (in hexadecimal) and the
  description of the \<open>i\<close>-th attribute. The text is determined by the scalar fields and the first
  \<open>numAttrs\<close> attributes: configurations that agree on these, equal ones among them, give
  the same text.
\<close>

theorem stringify_launch_config_total:
  assumes "unat (numAttrs config) \<le> length (attrs config)"
  shows "\<exists>out. stringify_launch_config config = Inr out
     \<and> length (lines_of out) = 5 + unat (numAttrs config)
     \<and> drop 5 (lines_of out) =
         map (\<lambda>i. ''  ['' @ hex_digits i @ ''] ''
                @ buf (describe_attr \<lparr>buf = [], base = Hex\<rparr> (attrs config ! i)))
           [0 ..< unat (numAttrs config)]
     \<and> (\<forall>config'. gridDimX config' = gridDimX config \<and> gridDimY config' = gridDimY config
           \<and> gridDimZ config' = gridDimZ config \<and> blockDimX config' = blockDimX config
           \<and> blockDimY config' = blockDimY config \<and> blockDimZ config' = blockDimZ config
           \<and> sharedMemBytes config' = sharedMemBytes config \<and> hStream config' = hStream config
           \<and> numAttrs config' = numAttrs config
           \<and> take (unat (numAttrs config)) (attrs config') = take (unat (numAttrs config)) (attrs config)
           \<and> unat (numAttrs config) \<le> length (attrs config')
         \<longrightarrow> stringify_launch_config config' = Inr out)"
proof -
  let ?n = "unat (numAttrs config)"
  let ?line = "\<lambda>c i. ''  ['' @ hex_digits i @ ''] ''
                @ buf (describe_attr \<lparr>buf = [], base = Hex\<rparr> (attrs c ! i))"
  let ?out = "concat (map (\<lambda>l. l @ newline) (header_text config))
        @ concat (map (\<lambda>l. l @ newline) (map (?line config) [0 ..< ?n]))"
  have out: "stringify_launch_config config = Inr ?out"
    by (rule stringify_closed [OF assms])
  have nl: "\<And>l. l \<in> set (map (?line config) [0 ..< ?n]) \<Longrightarrow> CHR 0x0A \<notin> set l"
    by (auto simp: hex_digits_no_newline describe_attr_no_newline)
  have lines: "lines_of ?out = header_text config @ map (?line config) [0 ..< ?n]"
  proof -
    have "lines_of (?out @ []) = header_text config @ map (?line config) [0 ..< ?n] @ lines_of []"
      by (simp only: append_assoc lines_of_concat [OF header_no_newline] lines_of_concat [OF nl])
    then show ?thesis by simp
  qed
  have len: "length (header_text config) = 5"
    by (simp add: header_text_def)
  have same: "stringify_launch_config config' = Inr ?out"
    if eq: "gridDimX config' = gridDimX config" "gridDimY config' = gridDimY config"
       "gridDimZ config' = gridDimZ config" "blockDimX config' = blockDimX config"
       "blockDimY config' = blockDimY config" "blockDimZ config' = blockDimZ config"
       "sharedMemBytes config' = sharedMemBytes config" "hStream config' = hStream config"
       "numAttrs config' = numAttrs config"
       and tk: "take ?n (attrs config') = take ?n (attrs config)"
       and wf: "?n \<le> length (attrs config')"
    for config'
  proof -
    have "attrs config' ! i = attrs config ! i" if "i < ?n" for i
      using that tk by (metis nth_take)
    then have m: "map (?line config') [0 ..< ?n] = map (?line config) [0 ..< ?n]"
      by simp
    have h: "header_text config' = header_text config"
      by (simp add: header_text_def eq)
    have n: "unat (numAttrs config') = ?n"
      by (simp add: eq)
    have "unat (numAttrs config') \<le> length (attrs config')"
      using wf by (simp add: eq)
    from stringify_closed [OF this] show ?thesis
      by (simp only: n m h)
  qed
  show ?thesis
  proof (intro exI conjI allI impI)
    show "stringify_launch_config config = Inr ?out" by (rule out)
    show "length (lines_of ?out) = 5 + ?n" by (simp only: lines length_append len length_map length_upt)
    show "drop 5 (lines_of ?out) = map (?line config) [0 ..< ?n]"
      by (simp only: lines) (simp add: len)
    show "stringify_launch_config config' = Inr ?out"
      if "gridDimX config' = gridDimX config \<and> gridDimY config' = gridDimY config
           \<and> gridDimZ config' = gridDimZ config \<and> blockDimX config' = blockDimX config
           \<and> blockDimY config' = blockDimY config \<and> blockDimZ config' = blockDimZ config
           \<and> sharedMemBytes config' = sharedMemBytes config \<and> hStream config' = hStream config
           \<and> numAttrs config' = numAttrs config
           \<and> take (unat (numAttrs config)) (attrs config') = take (unat (numAttrs config)) (attrs config)
           \<and> unat (numAttrs config) \<le> length (attrs config')" for config'
      using that same by blast
  qed
qed

theorem stringify_launch_config_total_witness:
  "unat (numAttrs example_config) \<le> length (attrs example_config)
   \<and> (\<exists>out. stringify_launch_config example_config = Inr out
        \<and> length (lines_of out) = 8
        \<and> drop 5 (lines_of out) =
            [''  [0] Cluster Dimension: (2, 1, 1)'',
             ''  [1] Priority: ffffffff'',
             ''  [2] Unknown Attribute (ID=63)'']
        \<and> stringify_launch_config
              (example_config\<lparr>attrs := attrs example_config @ attrs example_config\<rparr>) = Inr out)"
proof -
  have h: "unat (numAttrs example_config) \<le> length (attrs example_config)"
    by (simp add: example_config_def)
  have up: "[0 ..< 3] = [0, 1, 2]" by (simp add: upt_rec)
  from stringify_launch_config_total [OF h] obtain out where
    1: "stringify_launch_config example_config = Inr out" and
    2: "length (lines_of out) = 5 + unat (numAttrs example_config)" and
    3: "drop 5 (lines_of out) =
         map (\<lambda>i. ''  ['' @ hex_digits i @ ''] ''
                @ buf (describe_attr \<lparr>buf = [], base = Hex\<rparr> (attrs example_config ! i)))
           [0 ..< unat (numAttrs example_config)]" and
    4: "\<And>config'. gridDimX config' = gridDimX example_config \<and> gridDimY config' = gridDimY example_config
           \<and> gridDimZ config' = gridDimZ example_config \<and> blockDimX config' = blockDimX example_config
           \<and> blockDimY config' = blockDimY example_config \<and> blockDimZ config' = blockDimZ example_config
           \<and> sharedMemBytes config' = sharedMemBytes example_config \<and> hStream config' = hStream example_config
           \<and> numAttrs config' = numAttrs example_config
           \<and> take (unat (numAttrs example_config)) (attrs config') = take (unat (numAttrs example_config)) (attrs example_config)
           \<and> unat (numAttrs example_config) \<le> length (attrs config')
         \<Longrightarrow> stringify_launch_config config' = Inr out"
    by blast
  have b2: "length (lines_of out) = 8"
    using 2 by (simp add: example_config_def)
  have b3: "drop 5 (lines_of out) =
            [''  [0] Cluster Dimension: (2, 1, 1)'',
             ''  [1] Priority: ffffffff'',
             ''  [2] Unknown Attribute (ID=63)'']"
    unfolding 3
    by (simp add: example_config_def up describe_attr_def Let_def put_str_def put_unsigned_def
        put_int_def CU_LAUNCH_ATTRIBUTE_CLUSTER_DIMENSION_def CU_LAUNCH_ATTRIBUTE_PRIORITY_def
        hex_digits.simps digit_char_def)
  have b4: "stringify_launch_config
              (example_config\<lparr>attrs := attrs example_config @ attrs example_config\<rparr>) = Inr out"
    by (rule 4) (simp add: example_config_def)
  from h 1 b2 b3 b4 show ?thesis by blast
qed

subsection \<open>Construction\<close>

lemma ctor_fail:
  assumes "open_result env (dll_calls s) (dll_file_name (platform_of env) CUDA_LIB_NAME) = nullptr"
  shows "CUDADriverWrapper_ctor env s =
     (Inl (CheckFailed ''CUDA driver library is not open correctly.''),
      s\<lparr>dll_calls := dll_calls s @ [DllOpen (dll_file_name (platform_of env) CUDA_LIB_NAME)]\<rparr>)"
  using assms
  by (simp add: CUDADriverWrapper_ctor_def dllOpen_def TLLM_CHECK_WITH_INFO_def Let_def)

lemma ctor_ok:
  assumes "open_result env (dll_calls s) (dll_file_name (platform_of env) CUDA_LIB_NAME) = h"
    and "h \<noteq> nullptr"
  shows "\<exists>this. CUDADriverWrapper_ctor env s =
     (Inr this,
      s\<lparr>dll_calls := dll_calls s @ DllOpen (dll_file_name (platform_of env) CUDA_LIB_NAME)
           # map (DllGetSym h) symbol_names\<rparr>)
     \<and> handle this = h \<and> table this = map (sym_result env h) symbol_names"
  using assms
  by (simp add: CUDADriverWrapper_ctor_def dllOpen_def TLLM_CHECK_WITH_INFO_def Let_def
      load_sym_def dllGetSym_def symbol_names_def table_def)

lemma ctor_cases:
  "(open_result env (dll_calls s) (dll_file_name (platform_of env) CUDA_LIB_NAME) = nullptr
      \<and> CUDADriverWrapper_ctor env s =
         (Inl (CheckFailed ''CUDA driver library is not open correctly.''),
          s\<lparr>dll_calls := dll_calls s @ [DllOpen (dll_file_name (platform_of env) CUDA_LIB_NAME)]\<rparr>))
   \<or> (open_result env (dll_calls s) (dll_file_name (platform_of env) CUDA_LIB_NAME) \<noteq> nullptr
      \<and> (\<exists>this. CUDADriverWrapper_ctor env s =
         (Inr this,
          s\<lparr>dll_calls := dll_calls s @ DllOpen (dll_file_name (platform_of env) CUDA_LIB_NAME)
             # map (DllGetSym (handle this)) symbol_names\<rparr>)
         \<and> handle this = open_result env (dll_calls s) (dll_file_name (platform_of env) CUDA_LIB_NAME)
         \<and> table this = map (sym_result env (handle this)) symbol_names))"
proof (cases "open_result env (dll_calls s) (dll_file_name (platform_of env) CUDA_LIB_NAME) = nullptr")
  case True
  then show ?thesis by (simp add: ctor_fail)
next
  case False
  from ctor_ok [OF refl False] False show ?thesis by auto
qed

lemma fake_open_initial:
  "open_result fake_env (dll_calls initial_world)
     (dll_file_name (platform_of fake_env) CUDA_LIB_NAME) = 0x1000"
  by (simp add: fake_env_def initial_world_def dll_file_name_def CUDA_LIB_NAME_def)

lemma old_open_initial:
  "open_result old_driver_env (dll_calls initial_world)
     (dll_file_name (platform_of old_driver_env) CUDA_LIB_NAME) = 0x1000"
  by (simp add: old_driver_env_def fake_env_def initial_world_def dll_file_name_def CUDA_LIB_NAME_def)

lemma weak_lock_dead:
  assumes "deref_shared s w = None"
  shows "weak_lock w s = (None, s)"
  using assms by (cases w) (auto simp: weak_lock_def deref_shared_def split: if_splits)

lemma getInstance_fresh_fail:
  assumes "deref_shared s (instance_wp s) = None"
    and "open_result env (dll_calls s) (dll_file_name (platform_of env) CUDA_LIB_NAME) = nullptr"
  shows "getInstance env s =
     (Inl (CheckFailed ''CUDA driver library is not open correctly.''),
      s\<lparr>dll_calls := dll_calls s @ [DllOpen (dll_file_name (platform_of env) CUDA_LIB_NAME)]\<rparr>)"
  by (simp add: getInstance_def weak_lock_dead [OF assms(1)] ctor_fail [OF assms(2)])

lemma getInstance_fresh_ok:
  assumes "deref_shared s (instance_wp s) = None"
    and "open_result env (dll_calls s) (dll_file_name (platform_of env) CUDA_LIB_NAME) = h"
    and "h \<noteq> nullptr"
  shows "\<exists>this. getInstance env s =
     (Inr (Some (length (blocks s))),
      s\<lparr>dll_calls := dll_calls s @ DllOpen (dll_file_name (platform_of env) CUDA_LIB_NAME)
             # map (DllGetSym h) symbol_names,
        blocks := blocks s @ [\<lparr>obj = this, use_count = 1\<rparr>],
        instance_wp := Some (length (blocks s))\<rparr>)
     \<and> handle this = h \<and> table this = map (sym_result env h) symbol_names"
proof -
  from ctor_ok [OF assms(2,3)] obtain this where
    c: "CUDADriverWrapper_ctor env s =
     (Inr this,
      s\<lparr>dll_calls := dll_calls s @ DllOpen (dll_file_name (platform_of env) CUDA_LIB_NAME)
           # map (DllGetSym h) symbol_names\<rparr>)"
    and t: "handle this = h" "table this = map (sym_result env h) symbol_names"
    by blast
  have "getInstance env s =
     (Inr (Some (length (blocks s))),
      s\<lparr>dll_calls := dll_calls s @ DllOpen (dll_file_name (platform_of env) CUDA_LIB_NAME)
             # map (DllGetSym h) symbol_names,
        blocks := blocks s @ [\<lparr>obj = this, use_count = 1\<rparr>],
        instance_wp := Some (length (blocks s))\<rparr>)"
    by (simp add: getInstance_def weak_lock_dead [OF assms(1)] c new_shared_def)
  with t show ?thesis by blast
qed

lemma getInstance_alive:
  assumes "instance_wp s = Some a" and "a < length (blocks s)" and "0 < use_count (blocks s ! a)"
  shows "getInstance env s =
     (Inr (Some a),
      s\<lparr>blocks := (blocks s)[a := (blocks s ! a)\<lparr>use_count := use_count (blocks s ! a) + 1\<rparr>]\<rparr>)"
  using assms by (simp add: getInstance_def weak_lock_def)

text \<open>
  C1, as the code has it. When the constructor returns an object, the library handle is
  non-null and each of the 25 function pointers holds what the symbol lookup answered
  for its exported name on that handle: all lookups are made before the constructor
  returns, none is deferred. A pointer is null exactly when the lookup for its name
  answered null, and the constructor does not check for that. Construction fails exactly
  when the library handle is null.
\<close>

theorem ctor_binds_every_lookup:
  "(CUDADriverWrapper_ctor env s = (Inr this, s') \<longrightarrow>
      handle this \<noteq> nullptr
      \<and> handle this = open_result env (dll_calls s) (dll_file_name (platform_of env) CUDA_LIB_NAME)
      \<and> table this = map (sym_result env (handle this)) symbol_names
      \<and> length (table this) = 25
      \<and> (nullptr \<notin> set (table this)
           \<longleftrightarrow> (\<forall>name \<in> set symbol_names. sym_result env (handle this) name \<noteq> nullptr)))
   \<and> ((\<exists>e. fst (CUDADriverWrapper_ctor env s) = Inl e)
        \<longleftrightarrow> open_result env (dll_calls s) (dll_file_name (platform_of env) CUDA_LIB_NAME) = nullptr)"
  using ctor_cases [of env s] by (auto simp: symbol_names_def)

theorem ctor_binds_every_lookup_witness:
  "\<exists>this s'. CUDADriverWrapper_ctor fake_env initial_world = (Inr this, s')
      \<and> handle this = 0x1000 \<and> length (table this) = 25 \<and> nullptr \<notin> set (table this)"
proof -
  have "(0x1000 :: ptr) \<noteq> nullptr" by (simp add: nullptr_def)
  from ctor_ok [OF fake_open_initial this] obtain this s' where
    c: "CUDADriverWrapper_ctor fake_env initial_world = (Inr this, s')"
    by blast
  have all: "\<forall>name \<in> set symbol_names. sym_result fake_env 0x1000 name \<noteq> nullptr"
    by (simp add: symbol_names_def fake_env_def nullptr_def)
  from ctor_binds_every_lookup [of fake_env initial_world this s'] c
  have "handle this = 0x1000 \<and> length (table this) = 25
      \<and> (nullptr \<notin> set (table this)
           \<longleftrightarrow> (\<forall>name \<in> set symbol_names. sym_result fake_env (handle this) name \<noteq> nullptr))"
    by (metis fake_open_initial)
  then have h: "handle this = 0x1000" and l: "length (table this) = 25"
    and n: "nullptr \<notin> set (table this)
           \<longleftrightarrow> (\<forall>name \<in> set symbol_names. sym_result fake_env (handle this) name \<noteq> nullptr)"
    by blast+
  from n all have "nullptr \<notin> set (table this)" by (simp only: h)
  with c h l show ?thesis by blast
qed

text \<open>
  C1 as stated fails: with a driver that does not export \<open>cuLaunchKernelEx\<close> the
  constructor returns an object whose pointer for that operation is null.
\<close>

theorem ctor_null_pointer_counterexample:
  "map_sum id fn_cuLaunchKernelEx (fst (CUDADriverWrapper_ctor old_driver_env initial_world))
     = Inr nullptr"
proof -
  have "(0x1000 :: ptr) \<noteq> nullptr" by (simp add: nullptr_def)
  from ctor_ok [OF old_open_initial this] obtain this where
    c: "fst (CUDADriverWrapper_ctor old_driver_env initial_world) = Inr this"
    and t: "table this = map (sym_result old_driver_env 0x1000) symbol_names"
    by auto
  from t have "fn_cuLaunchKernelEx this = nullptr"
    by (simp add: table_def symbol_names_def old_driver_env_def nullptr_def)
  with c show ?thesis by simp
qed

text \<open>
  C3. If opening the driver library yields a null handle, the constructor fails with the
  message of its check after that single attempt: the loader is asked once, no symbol is
  looked up, nothing is retried. \<open>getInstance\<close>, when no live instance exists, fails the
  same way and leaves the singleton's storage as it was: no instance is produced.
\<close>

theorem ctor_open_failure:
  assumes "open_result env (dll_calls s) (dll_file_name (platform_of env) CUDA_LIB_NAME) = nullptr"
  shows "CUDADriverWrapper_ctor env s =
      (Inl (CheckFailed ''CUDA driver library is not open correctly.''),
       s\<lparr>dll_calls := dll_calls s @ [DllOpen (dll_file_name (platform_of env) CUDA_LIB_NAME)]\<rparr>)
    \<and> (deref_shared s (instance_wp s) = None \<longrightarrow>
         getInstance env s =
           (Inl (CheckFailed ''CUDA driver library is not open correctly.''),
            s\<lparr>dll_calls := dll_calls s @ [DllOpen (dll_file_name (platform_of env) CUDA_LIB_NAME)]\<rparr>))"
  using ctor_fail [OF assms] getInstance_fresh_fail [OF _ assms] by blast

theorem ctor_open_failure_witness:
  "open_result no_driver_env (dll_calls initial_world)
      (dll_file_name (platform_of no_driver_env) CUDA_LIB_NAME) = nullptr
   \<and> deref_shared initial_world (instance_wp initial_world) = None
   \<and> CUDADriverWrapper_ctor no_driver_env initial_world =
        (Inl (CheckFailed ''CUDA driver library is not open correctly.''),
         initial_world\<lparr>dll_calls := [DllOpen ''libcuda.so.1'']\<rparr>)
   \<and> getInstance no_driver_env initial_world =
        (Inl (CheckFailed ''CUDA driver library is not open correctly.''),
         initial_world\<lparr>dll_calls := [DllOpen ''libcuda.so.1'']\<rparr>)"
proof -
  have h: "open_result no_driver_env (dll_calls initial_world)
      (dll_file_name (platform_of no_driver_env) CUDA_LIB_NAME) = nullptr"
    by (simp add: no_driver_env_def nullptr_def)
  have d: "deref_shared initial_world (instance_wp initial_world) = None"
    by (simp add: initial_world_def deref_shared_def)
  have f: "dll_file_name (platform_of no_driver_env) CUDA_LIB_NAME = ''libcuda.so.1''"
    by (simp add: no_driver_env_def fake_env_def dll_file_name_def CUDA_LIB_NAME_def)
  have c: "dll_calls initial_world = []"
    by (simp add: initial_world_def)
  from ctor_open_failure [OF h] d h show ?thesis
    by (simp add: f c)
qed

text \<open>
  C7. Each function pointer is bound to one fixed exported name, looked up on the
  library handle: \<open>cuLinkCreate\<close>, \<open>cuModuleGetGlobal\<close>, \<open>cuLinkAddFile\<close>,
  \<open>cuLinkAddData\<close> and \<open>cuMemcpyDtoH\<close> to their name with the suffix \<open>_v2\<close>, every other
  operation to its own name. The loader sees the lookups in this order.
\<close>

theorem ctor_symbol_names:
  assumes "CUDADriverWrapper_ctor env s = (Inr this, s')"
  shows "fn_cuGetErrorName this = sym_result env (handle this) ''cuGetErrorName''
     \<and> fn_cuGetErrorString this = sym_result env (handle this) ''cuGetErrorString''
     \<and> fn_cuFuncSetAttribute this = sym_result env (handle this) ''cuFuncSetAttribute''
     \<and> fn_cuLinkComplete this = sym_result env (handle this) ''cuLinkComplete''
     \<and> fn_cuModuleUnload this = sym_result env (handle this) ''cuModuleUnload''
     \<and> fn_cuLinkDestroy this = sym_result env (handle this) ''cuLinkDestroy''
     \<and> fn_cuModuleLoadData this = sym_result env (handle this) ''cuModuleLoadData''
     \<and> fn_cuLinkCreate this = sym_result env (handle this) ''cuLinkCreate_v2''
     \<and> fn_cuModuleGetFunction this = sym_result env (handle this) ''cuModuleGetFunction''
     \<and> fn_cuModuleGetGlobal this = sym_result env (handle this) ''cuModuleGetGlobal_v2''
     \<and> fn_cuLibraryGetKernel this = sym_result env (handle this) ''cuLibraryGetKernel''
     \<and> fn_cuLibraryLoadData this = sym_result env (handle this) ''cuLibraryLoadData''
     \<and> fn_cuLibraryGetGlobal this = sym_result env (handle this) ''cuLibraryGetGlobal''
     \<and> fn_cuLibraryUnload this = sym_result env (handle this) ''cuLibraryUnload''
     \<and> fn_cuKernelSetAttribute this = sym_result env (handle this) ''cuKernelSetAttribute''
     \<and> fn_cuCtxGetDevice this = sym_result env (handle this) ''cuCtxGetDevice''
     \<and> fn_cuLinkAddFile this = sym_result env (handle this) ''cuLinkAddFile_v2''
     \<and> fn_cuLinkAddData this = sym_result env (handle this) ''cuLinkAddData_v2''
     \<and> fn_cuLaunchCooperativeKernel this = sym_result env (handle this) ''cuLaunchCooperativeKernel''
     \<and> fn_cuLaunchKernel this = sym_result env (handle this) ''cuLaunchKernel''
     \<and> fn_cuLaunchKernelEx this = sym_result env (handle this) ''cuLaunchKernelEx''
     \<and> fn_cuTensorMapEncodeTiled this = sym_result env (handle this) ''cuTensorMapEncodeTiled''
     \<and> fn_cuMemcpyDtoH this = sym_result env (handle this) ''cuMemcpyDtoH_v2''
     \<and> fn_cuDeviceGetAttribute this = sym_result env (handle this) ''cuDeviceGetAttribute''
     \<and> fn_cuOccupancyMaxActiveClusters this = sym_result env (handle this) ''cuOccupancyMaxActiveClusters''
     \<and> dll_calls s' = dll_calls s @ DllOpen (dll_file_name (platform_of env) CUDA_LIB_NAME)
         # map (DllGetSym (handle this))
             [''cuGetErrorName'', ''cuGetErrorString'', ''cuFuncSetAttribute'', ''cuLinkComplete'',
              ''cuModuleUnload'', ''cuLinkDestroy'', ''cuModuleLoadData'', ''cuLinkCreate_v2'',
              ''cuModuleGetFunction'', ''cuModuleGetGlobal_v2'', ''cuLibraryGetKernel'',
              ''cuLibraryLoadData'', ''cuLibraryGetGlobal'', ''cuLibraryUnload'',
              ''cuKernelSetAttribute'', ''cuCtxGetDevice'', ''cuLinkAddFile_v2'',
              ''cuLinkAddData_v2'', ''cuLaunchCooperativeKernel'', ''cuLaunchKernel'',
              ''cuLaunchKernelEx'', ''cuTensorMapEncodeTiled'', ''cuMemcpyDtoH_v2'',
              ''cuDeviceGetAttribute'', ''cuOccupancyMaxActiveClusters'']"
proof -
  from ctor_cases [of env s] assms
  have t: "table this = map (sym_result env (handle this)) symbol_names"
    and c: "dll_calls s' = dll_calls s @ DllOpen (dll_file_name (platform_of env) CUDA_LIB_NAME)
         # map (DllGetSym (handle this)) symbol_names"
    by auto
  from t have "fn_cuGetErrorName this = sym_result env (handle this) ''cuGetErrorName''
     \<and> fn_cuGetErrorString this = sym_result env (handle this) ''cuGetErrorString''
     \<and> fn_cuFuncSetAttribute this = sym_result env (handle this) ''cuFuncSetAttribute''
     \<and> fn_cuLinkComplete this = sym_result env (handle this) ''cuLinkComplete''
     \<and> fn_cuModuleUnload this = sym_result env (handle this) ''cuModuleUnload''
     \<and> fn_cuLinkDestroy this = sym_result env (handle this) ''cuLinkDestroy''
     \<and> fn_cuModuleLoadData this = sym_result env (handle this) ''cuModuleLoadData''
     \<and> fn_cuLinkCreate this = sym_result env (handle this) ''cuLinkCreate_v2''
     \<and> fn_cuModuleGetFunction this = sym_result env (handle this) ''cuModuleGetFunction''
     \<and> fn_cuModuleGetGlobal this = sym_result env (handle this) ''cuModuleGetGlobal_v2''
     \<and> fn_cuLibraryGetKernel this = sym_result env (handle this) ''cuLibraryGetKernel''
     \<and> fn_cuLibraryLoadData this = sym_result env (handle this) ''cuLibraryLoadData''
     \<and> fn_cuLibraryGetGlobal this = sym_result env (handle this) ''cuLibraryGetGlobal''
     \<and> fn_cuLibraryUnload this = sym_result env (handle this) ''cuLibraryUnload''
     \<and> fn_cuKernelSetAttribute this = sym_result env (handle this) ''cuKernelSetAttribute''
     \<and> fn_cuCtxGetDevice this = sym_result env (handle this) ''cuCtxGetDevice''
     \<and> fn_cuLinkAddFile this = sym_result env (handle this) ''cuLinkAddFile_v2''
     \<and> fn_cuLinkAddData this = sym_result env (handle this) ''cuLinkAddData_v2''
     \<and> fn_cuLaunchCooperativeKernel this = sym_result env (handle this) ''cuLaunchCooperativeKernel''
     \<and> fn_cuLaunchKernel this = sym_result env (handle this) ''cuLaunchKernel''
     \<and> fn_cuLaunchKernelEx this = sym_result env (handle this) ''cuLaunchKernelEx''
     \<and> fn_cuTensorMapEncodeTiled this = sym_result env (handle this) ''cuTensorMapEncodeTiled''
     \<and> fn_cuMemcpyDtoH this = sym_result env (handle this) ''cuMemcpyDtoH_v2''
     \<and> fn_cuDeviceGetAttribute this = sym_result env (handle this) ''cuDeviceGetAttribute''
     \<and> fn_cuOccupancyMaxActiveClusters this = sym_result env (handle this) ''cuOccupancyMaxActiveClusters''"
    by (simp add: table_def symbol_names_def)
  with c show ?thesis
    by (simp add: symbol_names_def)
qed

theorem ctor_symbol_names_witness:
  "\<exists>this s'. CUDADriverWrapper_ctor fake_env initial_world = (Inr this, s')
      \<and> fn_cuLinkCreate this = 0x100F \<and> fn_cuModuleGetGlobal this = 0x1014
      \<and> fn_cuLinkAddFile this = 0x1010 \<and> fn_cuLinkAddData this = 0x1010
      \<and> fn_cuMemcpyDtoH this = 0x100F \<and> fn_cuLaunchKernel this = 0x100E
      \<and> dll_calls s' = DllOpen ''libcuda.so.1'' # map (DllGetSym 0x1000) symbol_names"
proof -
  have "(0x1000 :: ptr) \<noteq> nullptr" by (simp add: nullptr_def)
  from ctor_ok [OF fake_open_initial this] obtain this s' where
    c: "CUDADriverWrapper_ctor fake_env initial_world = (Inr this, s')"
    and h: "handle this = 0x1000"
    by blast
  have f: "dll_file_name (platform_of fake_env) CUDA_LIB_NAME = ''libcuda.so.1''"
    by (simp add: fake_env_def dll_file_name_def CUDA_LIB_NAME_def)
  have s: "sym_result fake_env 0x1000 name = 0x1000 + of_nat (length name)" for name
    by (simp add: fake_env_def)
  have i: "dll_calls initial_world = []"
    by (simp add: initial_world_def)
  from ctor_symbol_names [OF c]
  have "fn_cuLinkCreate this = 0x100F \<and> fn_cuModuleGetGlobal this = 0x1014
      \<and> fn_cuLinkAddFile this = 0x1010 \<and> fn_cuLinkAddData this = 0x1010
      \<and> fn_cuMemcpyDtoH this = 0x100F \<and> fn_cuLaunchKernel this = 0x100E
      \<and> dll_calls s' = DllOpen ''libcuda.so.1'' # map (DllGetSym 0x1000) symbol_names"
    by (simp add: h f s i symbol_names_def)
  with c show ?thesis by blast
qed

subsection \<open>Lifetime of the singleton\<close>

lemma release_alive:
  assumes "a < length (blocks s)" and "1 < use_count (blocks s ! a)"
  shows "release (Some a) s =
     s\<lparr>blocks := (blocks s)[a := (blocks s ! a)\<lparr>use_count := use_count (blocks s ! a) - 1\<rparr>]\<rparr>"
  using assms by (simp add: release_def Let_def)

lemma release_last:
  assumes "a < length (blocks s)" and "use_count (blocks s ! a) = 1"
  shows "release (Some a) s =
     s\<lparr>blocks := (blocks s)[a := (blocks s ! a)\<lparr>use_count := 0\<rparr>],
       dll_calls := dll_calls s @ [DllClose (handle (obj (blocks s ! a)))]\<rparr>"
  using assms by (simp add: release_def Let_def CUDADriverWrapper_dtor_def dllClose_def)

lemma release_funpow_alive:
  assumes "a < length (blocks s)" and "m < use_count (blocks s ! a)"
  shows "(release (Some a) ^^ m) s =
     s\<lparr>blocks := (blocks s)[a := (blocks s ! a)\<lparr>use_count := use_count (blocks s ! a) - m\<rparr>]\<rparr>"
  using assms
proof (induction m)
  case 0
  then show ?case by simp
next
  case (Suc m)
  then have IH: "(release (Some a) ^^ m) s =
     s\<lparr>blocks := (blocks s)[a := (blocks s ! a)\<lparr>use_count := use_count (blocks s ! a) - m\<rparr>]\<rparr>"
    by simp
  from Suc.prems show ?case
    by (simp add: IH release_alive)
qed

lemma release_funpow_all:
  assumes "a < length (blocks s)" and "use_count (blocks s ! a) = Suc m"
  shows "(release (Some a) ^^ Suc m) s =
     s\<lparr>blocks := (blocks s)[a := (blocks s ! a)\<lparr>use_count := 0\<rparr>],
       dll_calls := dll_calls s @ [DllClose (handle (obj (blocks s ! a)))]\<rparr>"
proof -
  have "m < use_count (blocks s ! a)" using assms by simp
  from release_funpow_alive [OF assms(1) this] assms show ?thesis
    by (simp add: release_last)
qed

lemma deref_shared_update:
  assumes "a < length (blocks s)"
  shows "deref_shared (s\<lparr>blocks := (blocks s)[a := (blocks s ! a)\<lparr>use_count := k\<rparr>]\<rparr>) (Some a)
     = (if 0 < k then Some (obj (blocks s ! a)) else None)"
  using assms by (simp add: deref_shared_def)

text \<open>
  C8. Let the singleton be alive with \<open>n\<close> strong references. While fewer than \<open>n\<close> of
  them have been released the instance stays alive and the loader is not called. The
  release of the last one destroys the instance and closes its library handle, once. A
  call of \<open>getInstance\<close> after that opens the library anew; when the open succeeds it
  resolves all 25 symbols on the new handle and returns a new instance that holds the
  new handle, and when it fails the call fails as in C3.
\<close>

theorem singleton_teardown_and_reopen:
  assumes "instance_wp s = Some a" and "a < length (blocks s)"
    and "use_count (blocks s ! a) = n" and "0 < n"
  shows "(\<forall>m<n. dll_calls ((release (Some a) ^^ m) s) = dll_calls s
            \<and> deref_shared ((release (Some a) ^^ m) s) (Some a) = Some (obj (blocks s ! a)))
     \<and> dll_calls ((release (Some a) ^^ n) s)
           = dll_calls s @ [DllClose (handle (obj (blocks s ! a)))]
     \<and> deref_shared ((release (Some a) ^^ n) s) (Some a) = None
     \<and> (let s1 = (release (Some a) ^^ n) s;
              file = dll_file_name (platform_of env) CUDA_LIB_NAME;
              h = open_result env (dll_calls s1) file
          in if h = nullptr then
               getInstance env s1 =
                 (Inl (CheckFailed ''CUDA driver library is not open correctly.''),
                  s1\<lparr>dll_calls := dll_calls s1 @ [DllOpen file]\<rparr>)
             else
               (\<exists>this. getInstance env s1 =
                  (Inr (Some (length (blocks s))),
                   s1\<lparr>dll_calls := dll_calls s1 @ DllOpen file # map (DllGetSym h) symbol_names,
                      blocks := blocks s1 @ [\<lparr>obj = this, use_count = 1\<rparr>],
                      instance_wp := Some (length (blocks s))\<rparr>)
                  \<and> Some (length (blocks s)) \<noteq> Some a
                  \<and> handle this = h
                  \<and> table this = map (sym_result env h) symbol_names))"
proof -
  let ?s1 = "(release (Some a) ^^ n) s"
  let ?file = "dll_file_name (platform_of env) CUDA_LIB_NAME"
  have alive: "dll_calls ((release (Some a) ^^ m) s) = dll_calls s
            \<and> deref_shared ((release (Some a) ^^ m) s) (Some a) = Some (obj (blocks s ! a))"
    if "m < n" for m
  proof -
    from that assms(3) have "m < use_count (blocks s ! a)" by simp
    from release_funpow_alive [OF assms(2) this] that assms(3) show ?thesis
      by (simp add: deref_shared_update [OF assms(2)])
  qed
  obtain k where n: "n = Suc k" using assms(4) by (cases n) auto
  have s1: "?s1 = s\<lparr>blocks := (blocks s)[a := (blocks s ! a)\<lparr>use_count := 0\<rparr>],
       dll_calls := dll_calls s @ [DllClose (handle (obj (blocks s ! a)))]\<rparr>"
    unfolding n using assms(3) by (intro release_funpow_all [OF assms(2)]) (simp add: n)
  have calls: "dll_calls ?s1 = dll_calls s @ [DllClose (handle (obj (blocks s ! a)))]"
    by (simp add: s1)
  have dead: "deref_shared ?s1 (Some a) = None"
    using assms(2) by (simp add: s1 deref_shared_def)
  have inst: "instance_wp ?s1 = Some a"
    by (simp add: s1 assms(1))
  have len: "length (blocks ?s1) = length (blocks s)"
    by (simp add: s1)
  have expired: "deref_shared ?s1 (instance_wp ?s1) = None"
    by (simp only: inst dead)
  have reopen_fail: "getInstance env ?s1 =
         (Inl (CheckFailed ''CUDA driver library is not open correctly.''),
          ?s1\<lparr>dll_calls := dll_calls ?s1 @ [DllOpen ?file]\<rparr>)"
    if "open_result env (dll_calls ?s1) ?file = nullptr"
    by (rule getInstance_fresh_fail [OF expired that])
  have reopen_ok: "\<exists>this. getInstance env ?s1 =
                  (Inr (Some (length (blocks s))),
                   ?s1\<lparr>dll_calls := dll_calls ?s1 @ DllOpen ?file
                         # map (DllGetSym (open_result env (dll_calls ?s1) ?file)) symbol_names,
                      blocks := blocks ?s1 @ [\<lparr>obj = this, use_count = 1\<rparr>],
                      instance_wp := Some (length (blocks s))\<rparr>)
                  \<and> Some (length (blocks s)) \<noteq> Some a
                  \<and> handle this = open_result env (dll_calls ?s1) ?file
                  \<and> table this = map (sym_result env (open_result env (dll_calls ?s1) ?file)) symbol_names"
    if "open_result env (dll_calls ?s1) ?file \<noteq> nullptr"
    using getInstance_fresh_ok [OF expired refl that] assms(2)
    by (simp only: len) auto
  from alive calls dead reopen_fail reopen_ok show ?thesis
    by (simp only: Let_def) auto
qed

theorem singleton_teardown_and_reopen_witness:
  "instance_wp world_two_holders = Some 0
   \<and> 0 < length (blocks world_two_holders)
   \<and> use_count (blocks world_two_holders ! 0) = 2
   \<and> handle (obj (blocks world_two_holders ! 0)) = 0x1000
   \<and> dll_calls ((release (Some 0) ^^ 1) world_two_holders) = dll_calls world_two_holders
   \<and> dll_calls ((release (Some 0) ^^ 2) world_two_holders)
        = dll_calls world_two_holders @ [DllClose 0x1000]
   \<and> deref_shared ((release (Some 0) ^^ 2) world_two_holders) (Some 0) = None
   \<and> (\<exists>this. getInstance fake_env ((release (Some 0) ^^ 2) world_two_holders)
          = (Inr (Some 1),
             ((release (Some 0) ^^ 2) world_two_holders)
               \<lparr>dll_calls := (dll_calls world_two_holders @ [DllClose 0x1000])
                    @ DllOpen ''libcuda.so.1'' # map (DllGetSym 0x1C000) symbol_names,
                blocks := blocks ((release (Some 0) ^^ 2) world_two_holders)
                    @ [\<lparr>obj = this, use_count = 1\<rparr>],
                instance_wp := Some 1\<rparr>)
         \<and> handle this = 0x1C000)"
proof -
  have nz: "(0x1000 :: ptr) \<noteq> nullptr" by (simp add: nullptr_def)
  have d: "deref_shared initial_world (instance_wp initial_world) = None"
    by (simp add: initial_world_def deref_shared_def)
  have f: "dll_file_name (platform_of fake_env) CUDA_LIB_NAME = ''libcuda.so.1''"
    by (simp add: fake_env_def dll_file_name_def CUDA_LIB_NAME_def)
  from getInstance_fresh_ok [OF d fake_open_initial nz] obtain w where
    g1: "getInstance fake_env initial_world =
      (Inr (Some 0),
       initial_world\<lparr>dll_calls := DllOpen ''libcuda.so.1'' # map (DllGetSym 0x1000) symbol_names,
          blocks := [\<lparr>obj = w, use_count = 1\<rparr>], instance_wp := Some 0\<rparr>)"
    and hw: "handle w = 0x1000"
    by (auto simp: initial_world_def f)
  let ?s1 = "initial_world\<lparr>dll_calls := DllOpen ''libcuda.so.1'' # map (DllGetSym 0x1000) symbol_names,
          blocks := [\<lparr>obj = w, use_count = 1\<rparr>], instance_wp := Some 0\<rparr>"
  have g2: "getInstance fake_env ?s1 =
      (Inr (Some 0), ?s1\<lparr>blocks := [\<lparr>obj = w, use_count = 2\<rparr>]\<rparr>)"
    by (subst getInstance_alive [where a = 0]) simp_all
  have w2: "world_two_holders = ?s1\<lparr>blocks := [\<lparr>obj = w, use_count = 2\<rparr>]\<rparr>"
    by (simp only: world_two_holders_def g1 g2 snd_conv)
  have a1: "instance_wp world_two_holders = Some 0"
    and a2: "0 < length (blocks world_two_holders)"
    and a3: "use_count (blocks world_two_holders ! 0) = 2"
    and a4: "handle (obj (blocks world_two_holders ! 0)) = 0x1000"
    and a5: "length (dll_calls world_two_holders) = 26"
    and a6: "length (blocks world_two_holders) = 1"
    by (simp_all add: w2 hw symbol_names_def)
  have a0: "(0::nat) < 2" by simp
  have o: "open_result fake_env (dll_calls world_two_holders @ [DllClose 0x1000]) ''libcuda.so.1''
      = 0x1C000"
    by (simp add: fake_env_def a5)
  have nz2: "((0x1C000 :: ptr) = nullptr) = False" by (simp add: nullptr_def)
  note T = singleton_teardown_and_reopen [OF a1 a2 a3 a0, of fake_env, unfolded Let_def f a4 a6]
  note b2 = T [THEN conjunct2, THEN conjunct1]
  note b3 = T [THEN conjunct2, THEN conjunct2, THEN conjunct1]
  note b4 = T [THEN conjunct2, THEN conjunct2, THEN conjunct2, unfolded b2 o nz2 if_False]
  have "(1::nat) < 2" by simp
  with T [THEN conjunct1]
  have b1: "dll_calls ((release (Some 0) ^^ 1) world_two_holders) = dll_calls world_two_holders"
    by blast
  from b4 have b5: "\<exists>this. getInstance fake_env ((release (Some 0) ^^ 2) world_two_holders)
          = (Inr (Some 1),
             ((release (Some 0) ^^ 2) world_two_holders)
               \<lparr>dll_calls := (dll_calls world_two_holders @ [DllClose 0x1000])
                    @ DllOpen ''libcuda.so.1'' # map (DllGetSym 0x1C000) symbol_names,
                blocks := blocks ((release (Some 0) ^^ 2) world_two_holders)
                    @ [\<lparr>obj = this, use_count = 1\<rparr>],
                instance_wp := Some 1\<rparr>)
         \<and> handle this = 0x1C000"
    by blast
  from a1 a2 a3 a4 b1 b2 b3 b5 show ?thesis
    by blast
qed

subsection \<open>Forwarding\<close>

lemma call_fn_stub:
  "f \<noteq> nullptr \<Longrightarrow> code_at env f = Some stub \<Longrightarrow> call_fn env f args s = apfst Inr (stub args s)"
  by (simp add: call_fn_def apfst_def map_prod_def split_def Let_def)

lemma cuLaunchKernelEx_valid:
  assumes "deref_config s config = Some c" and "stringify_launch_config c = Inr str"
  shows "cuLaunchKernelEx env this config f kernelParams extra s =
     (if check_debug_enabled env \<and> (extra \<noteq> nullptr) = (kernelParams \<noteq> nullptr) then
        (Inl (CheckFailed ''Exactly one of 'extra' and 'kernelParams' should be set.''),
         TLLM_LOG_DEBUG (''Launch config: '' @ str) s)
      else call_fn env (fn_cuLaunchKernelEx this)
             [VPtr config, VPtr f, VPtr kernelParams, VPtr extra]
             (TLLM_LOG_DEBUG (''Launch config: '' @ str) s))"
  using assms
  by (auto simp: cuLaunchKernelEx_def TLLM_CHECK_DEBUG_WITH_INFO_def TLLM_CHECK_WITH_INFO_def Let_def)

lemma stringify_returns:
  assumes "unat (numAttrs c) \<le> length (attrs c)"
  shows "\<exists>str. stringify_launch_config c = Inr str"
  using stringify_closed [OF assms] by blast

lemma example_config_wf: "unat (numAttrs example_config) \<le> length (attrs example_config)"
  by (simp add: example_config_def)

lemma launch_world_config: "deref_config launch_world 0x5000 = Some example_config"
  by (simp add: deref_config_def launch_world_def nullptr_def)

text \<open>
  C4, as the code has it. Let the function pointer of an operation be bound to a native
  function \<open>stub\<close>. Each of the 24 plain forwarding methods, on every argument tuple and
  in every state, returns what \<open>stub\<close> returns on exactly the caller's arguments in the
  caller's order, result code and effect unchanged. \<open>cuLaunchKernelEx\<close> does the same,
  on the state that already holds the logged configuration, whenever its configuration
  pointer refers to a configuration and the debug check does not fire, that is when
  debug checks are off or exactly one of \<open>kernelParams\<close> and \<open>extra\<close> is non-null.
\<close>

theorem forwarding_methods:
  "(fn_cuGetErrorName this \<noteq> nullptr \<and> code_at env (fn_cuGetErrorName this) = Some stub \<longrightarrow>
       cuGetErrorName env this error pStr s =
         apfst Inr (stub
            [VEnum error, VPtr pStr] s))
   \<and> (fn_cuGetErrorString this \<noteq> nullptr \<and> code_at env (fn_cuGetErrorString this) = Some stub \<longrightarrow>
       cuGetErrorString env this error pStr s =
         apfst Inr (stub
            [VEnum error, VPtr pStr] s))
   \<and> (fn_cuFuncSetAttribute this \<noteq> nullptr \<and> code_at env (fn_cuFuncSetAttribute this) = Some stub \<longrightarrow>
       cuFuncSetAttribute env this hfunc attrib val s =
         apfst Inr (stub
            [VPtr hfunc, VEnum attrib, VInt val] s))
   \<and> (fn_cuLinkComplete this \<noteq> nullptr \<and> code_at env (fn_cuLinkComplete this) = Some stub \<longrightarrow>
       cuLinkComplete env this state cubinOut sizeOut s =
         apfst Inr (stub
            [VPtr state, VPtr cubinOut, VPtr sizeOut] s))
   \<and> (fn_cuModuleUnload this \<noteq> nullptr \<and> code_at env (fn_cuModuleUnload this) = Some stub \<longrightarrow>
       cuModuleUnload env this hmod s =
         apfst Inr (stub
            [VPtr hmod] s))
   \<and> (fn_cuLinkDestroy this \<noteq> nullptr \<and> code_at env (fn_cuLinkDestroy this) = Some stub \<longrightarrow>
       cuLinkDestroy env this state s =
         apfst Inr (stub
            [VPtr state] s))
   \<and> (fn_cuModuleLoadData this \<noteq> nullptr \<and> code_at env (fn_cuModuleLoadData this) = Some stub \<longrightarrow>
       cuModuleLoadData env this module image' s =
         apfst Inr (stub
            [VPtr module, VPtr image'] s))
   \<and> (fn_cuLinkCreate this \<noteq> nullptr \<and> code_at env (fn_cuLinkCreate this) = Some stub \<longrightarrow>
       cuLinkCreate env this numOptions options optionValues stateOut s =
         apfst Inr (stub
            [VUInt numOptions, VPtr options, VPtr optionValues, VPtr stateOut] s))
   \<and> (fn_cuModuleGetFunction this \<noteq> nullptr \<and> code_at env (fn_cuModuleGetFunction this) = Some stub \<longrightarrow>
       cuModuleGetFunction env this hfunc hmod name s =
         apfst Inr (stub
            [VPtr hfunc, VPtr hmod, VPtr name] s))
   \<and> (fn_cuModuleGetGlobal this \<noteq> nullptr \<and> code_at env (fn_cuModuleGetGlobal this) = Some stub \<longrightarrow>
       cuModuleGetGlobal env this dptr bytes hmod name s =
         apfst Inr (stub
            [VPtr dptr, VPtr bytes, VPtr hmod, VPtr name] s))
   \<and> (fn_cuLibraryGetKernel this \<noteq> nullptr \<and> code_at env (fn_cuLibraryGetKernel this) = Some stub \<longrightarrow>
       cuLibraryGetKernel env this pKernel library name s =
         apfst Inr (stub
            [VPtr pKernel, VPtr library, VPtr name] s))
   \<and> (fn_cuLibraryLoadData this \<noteq> nullptr \<and> code_at env (fn_cuLibraryLoadData this) = Some stub \<longrightarrow>
       cuLibraryLoadData env this library code jitOptions jitOptionsValues numJitOptions libraryOptions
          libraryOptionValues numLibraryOptions s =
         apfst Inr (stub
            [VPtr library, VPtr code, VPtr jitOptions, VPtr jitOptionsValues,
             VUInt numJitOptions, VPtr libraryOptions, VPtr libraryOptionValues,
             VUInt numLibraryOptions] s))
   \<and> (fn_cuLibraryGetGlobal this \<noteq> nullptr \<and> code_at env (fn_cuLibraryGetGlobal this) = Some stub \<longrightarrow>
       cuLibraryGetGlobal env this dptr bytes library name s =
         apfst Inr (stub
            [VPtr dptr, VPtr bytes, VPtr library, VPtr name] s))
   \<and> (fn_cuLibraryUnload this \<noteq> nullptr \<and> code_at env (fn_cuLibraryUnload this) = Some stub \<longrightarrow>
       cuLibraryUnload env this library s =
         apfst Inr (stub
            [VPtr library] s))
   \<and> (fn_cuKernelSetAttribute this \<noteq> nullptr \<and> code_at env (fn_cuKernelSetAttribute this) = Some stub \<longrightarrow>
       cuKernelSetAttribute env this attrib val kernel' dev s =
         apfst Inr (stub
            [VEnum attrib, VInt val, VPtr kernel', VInt dev] s))
   \<and> (fn_cuCtxGetDevice this \<noteq> nullptr \<and> code_at env (fn_cuCtxGetDevice this) = Some stub \<longrightarrow>
       cuCtxGetDevice env this device s =
         apfst Inr (stub
            [VPtr device] s))
   \<and> (fn_cuLinkAddFile this \<noteq> nullptr \<and> code_at env (fn_cuLinkAddFile this) = Some stub \<longrightarrow>
       cuLinkAddFile env this state type' path numOptions options optionValues s =
         apfst Inr (stub
            [VPtr state, VEnum type', VPtr path, VUInt numOptions, VPtr options,
             VPtr optionValues] s))
   \<and> (fn_cuLinkAddData this \<noteq> nullptr \<and> code_at env (fn_cuLinkAddData this) = Some stub \<longrightarrow>
       cuLinkAddData env this state type' data size' name numOptions options optionValues s =
         apfst Inr (stub
            [VPtr state, VEnum type', VPtr data, VSize size', VPtr name,
             VUInt numOptions, VPtr options, VPtr optionValues] s))
   \<and> (fn_cuLaunchCooperativeKernel this \<noteq> nullptr \<and> code_at env (fn_cuLaunchCooperativeKernel this) = Some stub \<longrightarrow>
       cuLaunchCooperativeKernel env this f gridDimX' gridDimY' gridDimZ' blockDimX' blockDimY' blockDimZ'
          sharedMemBytes' hStream' kernelParams s =
         apfst Inr (stub
            [VPtr f, VUInt gridDimX', VUInt gridDimY', VUInt gridDimZ',
             VUInt blockDimX', VUInt blockDimY', VUInt blockDimZ',
             VUInt sharedMemBytes', VPtr hStream', VPtr kernelParams] s))
   \<and> (fn_cuLaunchKernel this \<noteq> nullptr \<and> code_at env (fn_cuLaunchKernel this) = Some stub \<longrightarrow>
       cuLaunchKernel env this f gridDimX' gridDimY' gridDimZ' blockDimX' blockDimY' blockDimZ'
          sharedMemBytes' hStream' kernelParams extra s =
         apfst Inr (stub
            [VPtr f, VUInt gridDimX', VUInt gridDimY', VUInt gridDimZ',
             VUInt blockDimX', VUInt blockDimY', VUInt blockDimZ',
             VUInt sharedMemBytes', VPtr hStream', VPtr kernelParams, VPtr extra] s))
   \<and> (fn_cuTensorMapEncodeTiled this \<noteq> nullptr \<and> code_at env (fn_cuTensorMapEncodeTiled this) = Some stub \<longrightarrow>
       cuTensorMapEncodeTiled env this tensorMap tensorDataType tensorRank globalAddress globalDim globalStrides
          boxDim elementStrides interleave swizzle l2Promotion oobFill s =
         apfst Inr (stub
            [VPtr tensorMap, VEnum tensorDataType, VUInt tensorRank, VPtr globalAddress,
             VPtr globalDim, VPtr globalStrides, VPtr boxDim, VPtr elementStrides,
             VEnum interleave, VEnum swizzle, VEnum l2Promotion, VEnum oobFill] s))
   \<and> (fn_cuMemcpyDtoH this \<noteq> nullptr \<and> code_at env (fn_cuMemcpyDtoH this) = Some stub \<longrightarrow>
       cuMemcpyDtoH env this dstHost srcDevice ByteCount s =
         apfst Inr (stub
            [VPtr dstHost, VDevPtr srcDevice, VSize ByteCount] s))
   \<and> (fn_cuDeviceGetAttribute this \<noteq> nullptr \<and> code_at env (fn_cuDeviceGetAttribute this) = Some stub \<longrightarrow>
       cuDeviceGetAttribute env this pi attrib dev s =
         apfst Inr (stub
            [VPtr pi, VEnum attrib, VInt dev] s))
   \<and> (fn_cuOccupancyMaxActiveClusters this \<noteq> nullptr \<and> code_at env (fn_cuOccupancyMaxActiveClusters this) = Some stub \<longrightarrow>
       cuOccupancyMaxActiveClusters env this maxActiveClusters f config s =
         apfst Inr (stub
            [VPtr maxActiveClusters, VPtr f, VPtr config] s))
   \<and> (fn_cuLaunchKernelEx this \<noteq> nullptr \<and> code_at env (fn_cuLaunchKernelEx this) = Some stub
        \<and> deref_config s config = Some c \<and> unat (numAttrs c) \<le> length (attrs c)
        \<and> (\<not> check_debug_enabled env \<or> (extra \<noteq> nullptr) \<noteq> (kernelParams \<noteq> nullptr)) \<longrightarrow>
       (\<exists>str. stringify_launch_config c = Inr str
          \<and> cuLaunchKernelEx env this config f kernelParams extra s =
              apfst Inr (stub [VPtr config, VPtr f, VPtr kernelParams, VPtr extra]
                 (TLLM_LOG_DEBUG (''Launch config: '' @ str) s))))"
proof -
  have ex: "\<exists>str. stringify_launch_config c = Inr str
          \<and> cuLaunchKernelEx env this config f kernelParams extra s =
              apfst Inr (stub [VPtr config, VPtr f, VPtr kernelParams, VPtr extra]
                 (TLLM_LOG_DEBUG (''Launch config: '' @ str) s))"
    if p: "fn_cuLaunchKernelEx this \<noteq> nullptr" "code_at env (fn_cuLaunchKernelEx this) = Some stub"
      and d: "deref_config s config = Some c" and w: "unat (numAttrs c) \<le> length (attrs c)"
      and g: "\<not> check_debug_enabled env \<or> (extra \<noteq> nullptr) \<noteq> (kernelParams \<noteq> nullptr)"
  proof -
    from stringify_returns [OF w] obtain str where str: "stringify_launch_config c = Inr str" ..
    from g have "\<not> (check_debug_enabled env \<and> (extra \<noteq> nullptr) = (kernelParams \<noteq> nullptr))"
      by blast
    then have "cuLaunchKernelEx env this config f kernelParams extra s =
        call_fn env (fn_cuLaunchKernelEx this)
             [VPtr config, VPtr f, VPtr kernelParams, VPtr extra]
             (TLLM_LOG_DEBUG (''Launch config: '' @ str) s)"
      by (simp only: cuLaunchKernelEx_valid [OF d str] if_False)
    with str show ?thesis
      by (simp only: call_fn_stub [OF p]) blast
  qed
  show ?thesis
    apply (intro conjI impI; elim conjE)
    apply (simp_all only: cuGetErrorName_def cuGetErrorString_def cuFuncSetAttribute_def cuLinkComplete_def cuModuleUnload_def cuLinkDestroy_def cuModuleLoadData_def cuLinkCreate_def cuModuleGetFunction_def cuModuleGetGlobal_def cuLibraryGetKernel_def cuLibraryLoadData_def cuLibraryGetGlobal_def cuLibraryUnload_def cuKernelSetAttribute_def cuCtxGetDevice_def cuLinkAddFile_def cuLinkAddData_def cuLaunchCooperativeKernel_def cuLaunchKernel_def cuTensorMapEncodeTiled_def cuMemcpyDtoH_def cuDeviceGetAttribute_def cuOccupancyMaxActiveClusters_def)
    apply (rule call_fn_stub; assumption)+
    apply (rule ex; assumption)
    done
qed

theorem forwarding_methods_witness:
  "cuGetErrorName fake_env fake_wrapper 1 2 launch_world =
       (Inr 2, launch_world\<lparr>driver := [(0x2008, [VEnum 1, VPtr 2])]\<rparr>)
   \<and> cuGetErrorString fake_env fake_wrapper 1 2 launch_world =
       (Inr 2, launch_world\<lparr>driver := [(0x2010, [VEnum 1, VPtr 2])]\<rparr>)
   \<and> cuFuncSetAttribute fake_env fake_wrapper 1 2 3 launch_world =
       (Inr 3, launch_world\<lparr>driver := [(0x2018, [VPtr 1, VEnum 2, VInt 3])]\<rparr>)
   \<and> cuLinkComplete fake_env fake_wrapper 1 2 3 launch_world =
       (Inr 3, launch_world\<lparr>driver := [(0x2020, [VPtr 1, VPtr 2, VPtr 3])]\<rparr>)
   \<and> cuModuleUnload fake_env fake_wrapper 1 launch_world =
       (Inr 1, launch_world\<lparr>driver := [(0x2028, [VPtr 1])]\<rparr>)
   \<and> cuLinkDestroy fake_env fake_wrapper 1 launch_world =
       (Inr 1, launch_world\<lparr>driver := [(0x2030, [VPtr 1])]\<rparr>)
   \<and> cuModuleLoadData fake_env fake_wrapper 1 2 launch_world =
       (Inr 2, launch_world\<lparr>driver := [(0x2038, [VPtr 1, VPtr 2])]\<rparr>)
   \<and> cuLinkCreate fake_env fake_wrapper 1 2 3 4 launch_world =
       (Inr 4, launch_world\<lparr>driver := [(0x2040, [VUInt 1, VPtr 2, VPtr 3, VPtr 4])]\<rparr>)
   \<and> cuModuleGetFunction fake_env fake_wrapper 1 2 3 launch_world =
       (Inr 3, launch_world\<lparr>driver := [(0x2048, [VPtr 1, VPtr 2, VPtr 3])]\<rparr>)
   \<and> cuModuleGetGlobal fake_env fake_wrapper 1 2 3 4 launch_world =
       (Inr 4, launch_world\<lparr>driver := [(0x2050, [VPtr 1, VPtr 2, VPtr 3, VPtr 4])]\<rparr>)
   \<and> cuLibraryGetKernel fake_env fake_wrapper 1 2 3 launch_world =
       (Inr 3, launch_world\<lparr>driver := [(0x2058, [VPtr 1, VPtr 2, VPtr 3])]\<rparr>)
   \<and> cuLibraryLoadData fake_env fake_wrapper 1 2 3 4 5 6 7 8 launch_world =
       (Inr 8, launch_world\<lparr>driver := [(0x2060, [VPtr 1, VPtr 2, VPtr 3, VPtr 4, VUInt 5, VPtr 6, VPtr 7, VUInt 8])]\<rparr>)
   \<and> cuLibraryGetGlobal fake_env fake_wrapper 1 2 3 4 launch_world =
       (Inr 4, launch_world\<lparr>driver := [(0x2068, [VPtr 1, VPtr 2, VPtr 3, VPtr 4])]\<rparr>)
   \<and> cuLibraryUnload fake_env fake_wrapper 1 launch_world =
       (Inr 1, launch_world\<lparr>driver := [(0x2070, [VPtr 1])]\<rparr>)
   \<and> cuKernelSetAttribute fake_env fake_wrapper 1 2 3 4 launch_world =
       (Inr 4, launch_world\<lparr>driver := [(0x2078, [VEnum 1, VInt 2, VPtr 3, VInt 4])]\<rparr>)
   \<and> cuCtxGetDevice fake_env fake_wrapper 1 launch_world =
       (Inr 1, launch_world\<lparr>driver := [(0x2080, [VPtr 1])]\<rparr>)
   \<and> cuLinkAddFile fake_env fake_wrapper 1 2 3 4 5 6 launch_world =
       (Inr 6, launch_world\<lparr>driver := [(0x2088, [VPtr 1, VEnum 2, VPtr 3, VUInt 4, VPtr 5, VPtr 6])]\<rparr>)
   \<and> cuLinkAddData fake_env fake_wrapper 1 2 3 4 5 6 7 8 launch_world =
       (Inr 8, launch_world\<lparr>driver := [(0x2090, [VPtr 1, VEnum 2, VPtr 3, VSize 4, VPtr 5, VUInt 6, VPtr 7, VPtr 8])]\<rparr>)
   \<and> cuLaunchCooperativeKernel fake_env fake_wrapper 1 2 3 4 5 6 7 8 9 10 launch_world =
       (Inr 10, launch_world\<lparr>driver := [(0x2098, [VPtr 1, VUInt 2, VUInt 3, VUInt 4, VUInt 5, VUInt 6, VUInt 7, VUInt 8, VPtr 9, VPtr 10])]\<rparr>)
   \<and> cuLaunchKernel fake_env fake_wrapper 1 2 3 4 5 6 7 8 9 10 11 launch_world =
       (Inr 11, launch_world\<lparr>driver := [(0x20A0, [VPtr 1, VUInt 2, VUInt 3, VUInt 4, VUInt 5, VUInt 6, VUInt 7, VUInt 8, VPtr 9, VPtr 10, VPtr 11])]\<rparr>)
   \<and> cuTensorMapEncodeTiled fake_env fake_wrapper 1 2 3 4 5 6 7 8 9 10 11 12 launch_world =
       (Inr 12, launch_world\<lparr>driver := [(0x20B0, [VPtr 1, VEnum 2, VUInt 3, VPtr 4, VPtr 5, VPtr 6, VPtr 7, VPtr 8, VEnum 9, VEnum 10, VEnum 11, VEnum 12])]\<rparr>)
   \<and> cuMemcpyDtoH fake_env fake_wrapper 1 2 3 launch_world =
       (Inr 3, launch_world\<lparr>driver := [(0x20B8, [VPtr 1, VDevPtr 2, VSize 3])]\<rparr>)
   \<and> cuDeviceGetAttribute fake_env fake_wrapper 1 2 3 launch_world =
       (Inr 3, launch_world\<lparr>driver := [(0x20C0, [VPtr 1, VEnum 2, VInt 3])]\<rparr>)
   \<and> cuOccupancyMaxActiveClusters fake_env fake_wrapper 1 2 3 launch_world =
       (Inr 3, launch_world\<lparr>driver := [(0x20C8, [VPtr 1, VPtr 2, VPtr 3])]\<rparr>)
   \<and> (\<exists>str. stringify_launch_config example_config = Inr str
      \<and> cuLaunchKernelEx fake_env fake_wrapper 0x5000 0x6000 0x7000 0 launch_world =
          (Inr 4, launch_world\<lparr>log_sink := [(DEBUG, ''Launch config: '' @ str)],
             driver := [(0x20A8, [VPtr 0x5000, VPtr 0x6000, VPtr 0x7000, VPtr 0])]\<rparr>))"
proof -
  have m1: "cuGetErrorName fake_env fake_wrapper 1 2 launch_world =
       (Inr 2, launch_world\<lparr>driver := [(0x2008, [VEnum 1, VPtr 2])]\<rparr>)"
    using forwarding_methods [where env = fake_env and this = fake_wrapper and stub = "fake_stub 0x2008" and s = launch_world and error = 1 and pStr = 2,
        THEN conjunct1]
    by (simp add: fake_env_def fake_wrapper_def fake_stub_def nullptr_def launch_world_def
        initial_world_def)
  have m2: "cuGetErrorString fake_env fake_wrapper 1 2 launch_world =
       (Inr 2, launch_world\<lparr>driver := [(0x2010, [VEnum 1, VPtr 2])]\<rparr>)"
    using forwarding_methods [where env = fake_env and this = fake_wrapper and stub = "fake_stub 0x2010" and s = launch_world and error = 1 and pStr = 2,
        THEN conjunct2, THEN conjunct1]
    by (simp add: fake_env_def fake_wrapper_def fake_stub_def nullptr_def launch_world_def
        initial_world_def)
  have m3: "cuFuncSetAttribute fake_env fake_wrapper 1 2 3 launch_world =
       (Inr 3, launch_world\<lparr>driver := [(0x2018, [VPtr 1, VEnum 2, VInt 3])]\<rparr>)"
    using forwarding_methods [where env = fake_env and this = fake_wrapper and stub = "fake_stub 0x2018" and s = launch_world and hfunc = 1 and attrib = 2 and val = 3,
        THEN conjunct2, THEN conjunct2, THEN conjunct1]
    by (simp add: fake_env_def fake_wrapper_def fake_stub_def nullptr_def launch_world_def
        initial_world_def)
  have m4: "cuLinkComplete fake_env fake_wrapper 1 2 3 launch_world =
       (Inr 3, launch_world\<lparr>driver := [(0x2020, [VPtr 1, VPtr 2, VPtr 3])]\<rparr>)"
    using forwarding_methods [where env = fake_env and this = fake_wrapper and stub = "fake_stub 0x2020" and s = launch_world and state = 1 and cubinOut = 2 and sizeOut = 3,
        THEN conjunct2, THEN conjunct2, THEN conjunct2, THEN conjunct1]
    by (simp add: fake_env_def fake_wrapper_def fake_stub_def nullptr_def launch_world_def
        initial_world_def)
  have m5: "cuModuleUnload fake_env fake_wrapper 1 launch_world =
       (Inr 1, launch_world\<lparr>driver := [(0x2028, [VPtr 1])]\<rparr>)"
    using forwarding_methods [where env = fake_env and this = fake_wrapper and stub = "fake_stub 0x2028" and s = launch_world and hmod = 1,
        THEN conjunct2, THEN conjunct2, THEN conjunct2, THEN conjunct2, THEN conjunct1]
    by (simp add: fake_env_def fake_wrapper_def fake_stub_def nullptr_def launch_world_def
        initial_world_def)
  have m6: "cuLinkDestroy fake_env fake_wrapper 1 launch_world =
       (Inr 1, launch_world\<lparr>driver := [(0x2030, [VPtr 1])]\<rparr>)"
    using forwarding_methods [where env = fake_env and this = fake_wrapper and stub = "fake_stub 0x2030" and s = launch_world and state = 1,
        THEN conjunct2, THEN conjunct2, THEN conjunct2, THEN conjunct2, THEN conjunct2, THEN conjunct1]
    by (simp add: fake_env_def fake_wrapper_def fake_stub_def nullptr_def launch_world_def
        initial_world_def)
  have m7: "cuModuleLoadData fake_env fake_wrapper 1 2 launch_world =
       (Inr 2, launch_world\<lparr>driver := [(0x2038, [VPtr 1, VPtr 2])]\<rparr>)"
    using forwarding_methods [where env = fake_env and this = fake_wrapper and stub = "fake_stub 0x2038" and s = launch_world and module = 1 and image' = 2,
        THEN conjunct2, THEN conjunct2, THEN conjunct2, THEN conjunct2, THEN conjunct2, THEN conjunct2, THEN conjunct1]
    by (simp add: fake_env_def fake_wrapper_def fake_stub_def nullptr_def launch_world_def
        initial_world_def)
  have m8: "cuLinkCreate fake_env fake_wrapper 1 2 3 4 launch_world =
       (Inr 4, launch_world\<lparr>driver := [(0x2040, [VUInt 1, VPtr 2, VPtr 3, VPtr 4])]\<rparr>)"
    using forwarding_methods [where env = fake_env and this = fake_wrapper and stub = "fake_stub 0x2040" and s = launch_world and numOptions = 1 and options = 2 and optionValues = 3 and stateOut = 4,
        THEN conjunct2, THEN conjunct2, THEN conjunct2, THEN conjunct2, THEN conjunct2, THEN conjunct2, THEN conjunct2, THEN conjunct1]
    by (simp add: fake_env_def fake_wrapper_def fake_stub_def nullptr_def launch_world_def
        initial_world_def)
  have m9: "cuModuleGetFunction fake_env fake_wrapper 1 2 3 launch_world =
       (Inr 3, launch_world\<lparr>driver := [(0x2048, [VPtr 1, VPtr 2, VPtr 3])]\<rparr>)"
    using forwarding_methods [where env = fake_env and this = fake_wrapper and stub = "fake_stub 0x2048" and s = launch_world and hfunc = 1 and hmod = 2 and name = 3,
        THEN conjunct2, THEN conjunct2, THEN conjunct2, THEN conjunct2, THEN conjunct2, THEN conjunct2, THEN conjunct2, THEN conjunct2, THEN conjunct1]
    by (simp add: fake_env_def fake_wrapper_def fake_stub_def nullptr_def launch_world_def
        initial_world_def)
  have m10: "cuModuleGetGlobal fake_env fake_wrapper 1 2 3 4 launch_world =
       (Inr 4, launch_world\<lparr>driver := [(0x2050, [VPtr 1, VPtr 2, VPtr 3, VPtr 4])]\<rparr>)"
    using forwarding_methods [where env = fake_env and this = fake_wrapper and stub = "fake_stub 0x2050" and s = launch_world and dptr = 1 and bytes = 2 and hmod = 3 and name = 4,
        THEN conjunct2, THEN conjunct2, THEN conjunct2, THEN conjunct2, THEN conjunct2, THEN conjunct2, THEN conjunct2, THEN conjunct2, THEN conjunct2, THEN conjunct1]
    by (simp add: fake_env_def fake_wrapper_def fake_stub_def nullptr_def launch_world_def
        initial_world_def)
  have m11: "cuLibraryGetKernel fake_env fake_wrapper 1 2 3 launch_world =
       (Inr 3, launch_world\<lparr>driver := [(0x2058, [VPtr 1, VPtr 2, VPtr 3])]\<rparr>)"
    using forwarding_methods [where env = fake_env and this = fake_wrapper and stub = "fake_stub 0x2058" and s = launch_world and pKernel = 1 and library = 2 and name = 3,
        THEN conjunct2, THEN conjunct2, THEN conjunct2, THEN conjunct2, THEN conjunct2, THEN conjunct2, THEN conjunct2, THEN conjunct2, THEN conjunct2, THEN conjunct2, THEN conjunct1]
    by (simp add: fake_env_def fake_wrapper_def fake_stub_def nullptr_def launch_world_def
        initial_world_def)
  have m12: "cuLibraryLoadData fake_env fake_wrapper 1 2 3 4 5 6 7 8 launch_world =
       (Inr 8, launch_world\<lparr>driver := [(0x2060, [VPtr 1, VPtr 2, VPtr 3, VPtr 4, VUInt 5, VPtr 6, VPtr 7, VUInt 8])]\<rparr>)"
    using forwarding_methods [where env = fake_env and this = fake_wrapper and stub = "fake_stub 0x2060" and s = launch_world and library = 1 and code = 2 and jitOptions = 3 and jitOptionsValues = 4 and numJitOptions = 5 and libraryOptions = 6 and libraryOptionValues = 7 and numLibraryOptions = 8,
        THEN conjunct2, THEN conjunct2, THEN conjunct2, THEN conjunct2, THEN conjunct2, THEN conjunct2, THEN conjunct2, THEN conjunct2, THEN conjunct2, THEN conjunct2, THEN conjunct2, THEN conjunct1]
    by (simp add: fake_env_def fake_wrapper_def fake_stub_def nullptr_def launch_world_def
        initial_world_def)
  have m13: "cuLibraryGetGlobal fake_env fake_wrapper 1 2 3 4 launch_world =
       (Inr 4, launch_world\<lparr>driver := [(0x2068, [VPtr 1, VPtr 2, VPtr 3, VPtr 4])]\<rparr>)"
    using forwarding_methods [where env = fake_env and this = fake_wrapper and stub = "fake_stub 0x2068" and s = launch_world and dptr = 1 and bytes = 2 and library = 3 and name = 4,
        THEN conjunct2, THEN conjunct2, THEN conjunct2, THEN conjunct2, THEN conjunct2, THEN conjunct2, THEN conjunct2, THEN conjunct2, THEN conjunct2, THEN conjunct2, THEN conjunct2, THEN conjunct2, THEN conjunct1]
    by (simp add: fake_env_def fake_wrapper_def fake_stub_def nullptr_def launch_world_def
        initial_world_def)
  have m14: "cuLibraryUnload fake_env fake_wrapper 1 launch_world =
       (Inr 1, launch_world\<lparr>driver := [(0x2070, [VPtr 1])]\<rparr>)"
    using forwarding_methods [where env = fake_env and this = fake_wrapper and stub = "fake_stub 0x2070" and s = launch_world and library = 1,
        THEN conjunct2, THEN conjunct2, THEN conjunct2, THEN conjunct2, THEN conjunct2, THEN conjunct2, THEN conjunct2, THEN conjunct2, THEN conjunct2, THEN conjunct2, THEN conjunct2, THEN conjunct2, THEN conjunct2, THEN conjunct1]
    by (simp add: fake_env_def fake_wrapper_def fake_stub_def nullptr_def launch_world_def
        initial_world_def)
  have m15: "cuKernelSetAttribute fake_env fake_wrapper 1 2 3 4 launch_world =
       (Inr 4, launch_world\<lparr>driver := [(0x2078, [VEnum 1, VInt 2, VPtr 3, VInt 4])]\<rparr>)"
    using forwarding_methods [where env = fake_env and this = fake_wrapper and stub = "fake_stub 0x2078" and s = launch_world and attrib = 1 and val = 2 and kernel' = 3 and dev = 4,
        THEN conjunct2, THEN conjunct2, THEN conjunct2, THEN conjunct2, THEN conjunct2, THEN conjunct2, THEN conjunct2, THEN conjunct2, THEN conjunct2, THEN conjunct2, THEN conjunct2, THEN conjunct2, THEN conjunct2, THEN conjunct2, THEN conjunct1]
    by (simp add: fake_env_def fake_wrapper_def fake_stub_def nullptr_def launch_world_def
        initial_world_def)
  have m16: "cuCtxGetDevice fake_env fake_wrapper 1 launch_world =
       (Inr 1, launch_world\<lparr>driver := [(0x2080, [VPtr 1])]\<rparr>)"
    using forwarding_methods [where env = fake_env and this = fake_wrapper and stub = "fake_stub 0x2080" and s = launch_world and device = 1,
        THEN conjunct2, THEN conjunct2, THEN conjunct2, THEN conjunct2, THEN conjunct2, THEN conjunct2, THEN conjunct2, THEN conjunct2, THEN conjunct2, THEN conjunct2, THEN conjunct2, THEN conjunct2, THEN conjunct2, THEN conjunct2, THEN conjunct2, THEN conjunct1]
    by (simp add: fake_env_def fake_wrapper_def fake_stub_def nullptr_def launch_world_def
        initial_world_def)
  have m17: "cuLinkAddFile fake_env fake_wrapper 1 2 3 4 5 6 launch_world =
       (Inr 6, launch_world\<lparr>driver := [(0x2088, [VPtr 1, VEnum 2, VPtr 3, VUInt 4, VPtr 5, VPtr 6])]\<rparr>)"
    using forwarding_methods [where env = fake_env and this = fake_wrapper and stub = "fake_stub 0x2088" and s = launch_world and state = 1 and type' = 2 and path = 3 and numOptions = 4 and options = 5 and optionValues = 6,
        THEN conjunct2, THEN conjunct2, THEN conjunct2, THEN conjunct2, THEN conjunct2, THEN conjunct2, THEN conjunct2, THEN conjunct2, THEN conjunct2, THEN conjunct2, THEN conjunct2, THEN conjunct2, THEN conjunct2, THEN conjunct2, THEN conjunct2, THEN conjunct2, THEN conjunct1]
    by (simp add: fake_env_def fake_wrapper_def fake_stub_def nullptr_def launch_world_def
        initial_world_def)
  have m18: "cuLinkAddData fake_env fake_wrapper 1 2 3 4 5 6 7 8 launch_world =
       (Inr 8, launch_world\<lparr>driver := [(0x2090, [VPtr 1, VEnum 2, VPtr 3, VSize 4, VPtr 5, VUInt 6, VPtr 7, VPtr 8])]\<rparr>)"
    using forwarding_methods [where env = fake_env and this = fake_wrapper and stub = "fake_stub 0x2090" and s = launch_world and state = 1 and type' = 2 and data = 3 and size' = 4 and name = 5 and numOptions = 6 and options = 7 and optionValues = 8,
        THEN conjunct2, THEN conjunct2, THEN conjunct2, THEN conjunct2, THEN conjunct2, THEN conjunct2, THEN conjunct2, THEN conjunct2, THEN conjunct2, THEN conjunct2, THEN conjunct2, THEN conjunct2, THEN conjunct2, THEN conjunct2, THEN conjunct2, THEN conjunct2, THEN conjunct2, THEN conjunct1]
    by (simp add: fake_env_def fake_wrapper_def fake_stub_def nullptr_def launch_world_def
        initial_world_def)
  have m19: "cuLaunchCooperativeKernel fake_env fake_wrapper 1 2 3 4 5 6 7 8 9 10 launch_world =
       (Inr 10, launch_world\<lparr>driver := [(0x2098, [VPtr 1, VUInt 2, VUInt 3, VUInt 4, VUInt 5, VUInt 6, VUInt 7, VUInt 8, VPtr 9, VPtr 10])]\<rparr>)"
    using forwarding_methods [where env = fake_env and this = fake_wrapper and stub = "fake_stub 0x2098" and s = launch_world and f = 1 and gridDimX' = 2 and gridDimY' = 3 and gridDimZ' = 4 and blockDimX' = 5 and blockDimY' = 6 and blockDimZ' = 7 and sharedMemBytes' = 8 and hStream' = 9 and kernelParams = 10,
        THEN conjunct2, THEN conjunct2, THEN conjunct2, THEN conjunct2, THEN conjunct2, THEN conjunct2, THEN conjunct2, THEN conjunct2, THEN conjunct2, THEN conjunct2, THEN conjunct2, THEN conjunct2, THEN conjunct2, THEN conjunct2, THEN conjunct2, THEN conjunct2, THEN conjunct2, THEN conjunct2, THEN conjunct1]
    by (simp add: fake_env_def fake_wrapper_def fake_stub_def nullptr_def launch_world_def
        initial_world_def)
  have m20: "cuLaunchKernel fake_env fake_wrapper 1 2 3 4 5 6 7 8 9 10 11 launch_world =
       (Inr 11, launch_world\<lparr>driver := [(0x20A0, [VPtr 1, VUInt 2, VUInt 3, VUInt 4, VUInt 5, VUInt 6, VUInt 7, VUInt 8, VPtr 9, VPtr 10, VPtr 11])]\<rparr>)"
    using forwarding_methods [where env = fake_env and this = fake_wrapper and stub = "fake_stub 0x20A0" and s = launch_world and f = 1 and gridDimX' = 2 and gridDimY' = 3 and gridDimZ' = 4 and blockDimX' = 5 and blockDimY' = 6 and blockDimZ' = 7 and sharedMemBytes' = 8 and hStream' = 9 and kernelParams = 10 and extra = 11,
        THEN conjunct2, THEN conjunct2, THEN conjunct2, THEN conjunct2, THEN conjunct2, THEN conjunct2, THEN conjunct2, THEN conjunct2, THEN conjunct2, THEN conjunct2, THEN conjunct2, THEN conjunct2, THEN conjunct2, THEN conjunct2, THEN conjunct2, THEN conjunct2, THEN conjunct2, THEN conjunct2, THEN conjunct2, THEN conjunct1]
    by (simp add: fake_env_def fake_wrapper_def fake_stub_def nullptr_def launch_world_def
        initial_world_def)
  have m21: "cuTensorMapEncodeTiled fake_env fake_wrapper 1 2 3 4 5 6 7 8 9 10 11 12 launch_world =
       (Inr 12, launch_world\<lparr>driver := [(0x20B0, [VPtr 1, VEnum 2, VUInt 3, VPtr 4, VPtr 5, VPtr 6, VPtr 7, VPtr 8, VEnum 9, VEnum 10, VEnum 11, VEnum 12])]\<rparr>)"
    using forwarding_methods [where env = fake_env and this = fake_wrapper and stub = "fake_stub 0x20B0" and s = launch_world and tensorMap = 1 and tensorDataType = 2 and tensorRank = 3 and globalAddress = 4 and globalDim = 5 and globalStrides = 6 and boxDim = 7 and elementStrides = 8 and interleave = 9 and swizzle = 10 and l2Promotion = 11 and oobFill = 12,
        THEN conjunct2, THEN conjunct2, THEN conjunct2, THEN conjunct2, THEN conjunct2, THEN conjunct2, THEN conjunct2, THEN conjunct2, THEN conjunct2, THEN conjunct2, THEN conjunct2, THEN conjunct2, THEN conjunct2, THEN conjunct2, THEN conjunct2, THEN conjunct2, THEN conjunct2, THEN conjunct2, THEN conjunct2, THEN conjunct2, THEN conjunct1]
    by (simp add: fake_env_def fake_wrapper_def fake_stub_def nullptr_def launch_world_def
        initial_world_def)
  have m22: "cuMemcpyDtoH fake_env fake_wrapper 1 2 3 launch_world =
       (Inr 3, launch_world\<lparr>driver := [(0x20B8, [VPtr 1, VDevPtr 2, VSize 3])]\<rparr>)"
    using forwarding_methods [where env = fake_env and this = fake_wrapper and stub = "fake_stub 0x20B8" and s = launch_world and dstHost = 1 and srcDevice = 2 and ByteCount = 3,
        THEN conjunct2, THEN conjunct2, THEN conjunct2, THEN conjunct2, THEN conjunct2, THEN conjunct2, THEN conjunct2, THEN conjunct2, THEN conjunct2, THEN conjunct2, THEN conjunct2, THEN conjunct2, THEN conjunct2, THEN conjunct2, THEN conjunct2, THEN conjunct2, THEN conjunct2, THEN conjunct2, THEN conjunct2, THEN conjunct2, THEN conjunct2, THEN conjunct1]
    by (simp add: fake_env_def fake_wrapper_def fake_stub_def nullptr_def launch_world_def
        initial_world_def)
  have m23: "cuDeviceGetAttribute fake_env fake_wrapper 1 2 3 launch_world =
       (Inr 3, launch_world\<lparr>driver := [(0x20C0, [VPtr 1, VEnum 2, VInt 3])]\<rparr>)"
    using forwarding_methods [where env = fake_env and this = fake_wrapper and stub = "fake_stub 0x20C0" and s = launch_world and pi = 1 and attrib = 2 and dev = 3,
        THEN conjunct2, THEN conjunct2, THEN conjunct2, THEN conjunct2, THEN conjunct2, THEN conjunct2, THEN conjunct2, THEN conjunct2, THEN conjunct2, THEN conjunct2, THEN conjunct2, THEN conjunct2, THEN conjunct2, THEN conjunct2, THEN conjunct2, THEN conjunct2, THEN conjunct2, THEN conjunct2, THEN conjunct2, THEN conjunct2, THEN conjunct2, THEN conjunct2, THEN conjunct1]
    by (simp add: fake_env_def fake_wrapper_def fake_stub_def nullptr_def launch_world_def
        initial_world_def)
  have m24: "cuOccupancyMaxActiveClusters fake_env fake_wrapper 1 2 3 launch_world =
       (Inr 3, launch_world\<lparr>driver := [(0x20C8, [VPtr 1, VPtr 2, VPtr 3])]\<rparr>)"
    using forwarding_methods [where env = fake_env and this = fake_wrapper and stub = "fake_stub 0x20C8" and s = launch_world and maxActiveClusters = 1 and f = 2 and config = 3,
        THEN conjunct2, THEN conjunct2, THEN conjunct2, THEN conjunct2, THEN conjunct2, THEN conjunct2, THEN conjunct2, THEN conjunct2, THEN conjunct2, THEN conjunct2, THEN conjunct2, THEN conjunct2, THEN conjunct2, THEN conjunct2, THEN conjunct2, THEN conjunct2, THEN conjunct2, THEN conjunct2, THEN conjunct2, THEN conjunct2, THEN conjunct2, THEN conjunct2, THEN conjunct2, THEN conjunct1]
    by (simp add: fake_env_def fake_wrapper_def fake_stub_def nullptr_def launch_world_def
        initial_world_def)
  have w: "unat (numAttrs example_config) \<le> length (attrs example_config)"
    by (simp add: example_config_def)
  have ex: "\<exists>str. stringify_launch_config example_config = Inr str
      \<and> cuLaunchKernelEx fake_env fake_wrapper 0x5000 0x6000 0x7000 0 launch_world =
          (Inr 4, launch_world\<lparr>log_sink := [(DEBUG, ''Launch config: '' @ str)],
             driver := [(0x20A8, [VPtr 0x5000, VPtr 0x6000, VPtr 0x7000, VPtr 0])]\<rparr>)"
    using forwarding_methods [where env = fake_env and this = fake_wrapper
        and stub = "fake_stub 0x20A8" and s = launch_world and config = "0x5000"
        and f = "0x6000" and kernelParams = "0x7000" and extra = 0 and c = example_config,
        THEN conjunct2, THEN conjunct2, THEN conjunct2, THEN conjunct2, THEN conjunct2, THEN conjunct2, THEN conjunct2, THEN conjunct2, THEN conjunct2, THEN conjunct2, THEN conjunct2, THEN conjunct2, THEN conjunct2, THEN conjunct2, THEN conjunct2, THEN conjunct2, THEN conjunct2, THEN conjunct2, THEN conjunct2, THEN conjunct2, THEN conjunct2, THEN conjunct2, THEN conjunct2, THEN conjunct2] w
    by (simp add: fake_env_def fake_wrapper_def fake_stub_def nullptr_def launch_world_def
        initial_world_def deref_config_def TLLM_LOG_DEBUG_def)
  from m1 m2 m3 m4 m5 m6 m7 m8 m9 m10 m11 m12 m13 m14 m15 m16 m17 m18 m19 m20 m21 m22 m23 m24 ex show ?thesis
    by (intro conjI)
qed

text \<open>
  C4 as stated fails for \<open>cuLaunchKernelEx\<close>: with debug checks on and both
  \<open>kernelParams\<close> and \<open>extra\<close> null, the method ends in the failed check; the bound
  native function, which would have returned 4, is never called.
\<close>

theorem cuLaunchKernelEx_check_counterexample:
  "fn_cuLaunchKernelEx fake_wrapper \<noteq> nullptr
   \<and> code_at fake_env (fn_cuLaunchKernelEx fake_wrapper)
        = Some (fake_stub (fn_cuLaunchKernelEx fake_wrapper))
   \<and> fst (fake_stub (fn_cuLaunchKernelEx fake_wrapper)
          [VPtr 0x5000, VPtr 0x6000, VPtr 0, VPtr 0] launch_world) = 4
   \<and> fst (cuLaunchKernelEx fake_env fake_wrapper 0x5000 0x6000 0 0 launch_world)
        = Inl (CheckFailed ''Exactly one of 'extra' and 'kernelParams' should be set.'')
   \<and> driver (snd (cuLaunchKernelEx fake_env fake_wrapper 0x5000 0x6000 0 0 launch_world)) = []"
proof -
  from stringify_returns [OF example_config_wf] obtain str where
    str: "stringify_launch_config example_config = Inr str" ..
  have "cuLaunchKernelEx fake_env fake_wrapper 0x5000 0x6000 0 0 launch_world =
      (Inl (CheckFailed ''Exactly one of 'extra' and 'kernelParams' should be set.''),
       TLLM_LOG_DEBUG (''Launch config: '' @ str) launch_world)"
    by (simp add: cuLaunchKernelEx_valid [OF launch_world_config str] fake_env_def)
  then show ?thesis
    by (simp add: fake_env_def fake_wrapper_def fake_stub_def nullptr_def TLLM_LOG_DEBUG_def
        launch_world_def initial_world_def)
qed

text \<open>
  C5. In \<open>cuLaunchKernelEx\<close>, called with a pointer to a configuration: with debug checks
  on, the call ends in the failed exclusivity check exactly when \<open>kernelParams\<close> and
  \<open>extra\<close> are both non-null or both null, and never when exactly one of them is
  non-null; with debug checks off the check never fires.
\<close>

theorem cuLaunchKernelEx_debug_check:
  assumes "deref_config s config = Some c" and "unat (numAttrs c) \<le> length (attrs c)"
  shows "(check_debug_enabled env \<longrightarrow>
           (fst (cuLaunchKernelEx env this config f kernelParams extra s)
              = Inl (CheckFailed ''Exactly one of 'extra' and 'kernelParams' should be set.''))
           = ((kernelParams \<noteq> nullptr \<and> extra \<noteq> nullptr)
              \<or> (kernelParams = nullptr \<and> extra = nullptr)))
     \<and> (\<not> check_debug_enabled env \<longrightarrow>
           fst (cuLaunchKernelEx env this config f kernelParams extra s)
              \<noteq> Inl (CheckFailed ''Exactly one of 'extra' and 'kernelParams' should be set.''))"
proof -
  from stringify_returns [OF assms(2)] obtain str where
    str: "stringify_launch_config c = Inr str" ..
  have nf: "fst (call_fn env p args t) \<noteq> Inl (CheckFailed m)" for p args t m
    by (simp add: call_fn_def split_def Let_def split: option.split)
  show ?thesis
    by (auto simp: cuLaunchKernelEx_valid [OF assms(1) str] nf)
qed

theorem cuLaunchKernelEx_debug_check_witness:
  "deref_config launch_world 0x5000 = Some example_config
   \<and> unat (numAttrs example_config) \<le> length (attrs example_config)
   \<and> check_debug_enabled fake_env
   \<and> fst (cuLaunchKernelEx fake_env fake_wrapper 0x5000 0x6000 0 0 launch_world)
        = Inl (CheckFailed ''Exactly one of 'extra' and 'kernelParams' should be set.'')
   \<and> fst (cuLaunchKernelEx fake_env fake_wrapper 0x5000 0x6000 0x7000 0x8000 launch_world)
        = Inl (CheckFailed ''Exactly one of 'extra' and 'kernelParams' should be set.'')
   \<and> fst (cuLaunchKernelEx fake_env fake_wrapper 0x5000 0x6000 0x7000 0 launch_world)
        \<noteq> Inl (CheckFailed ''Exactly one of 'extra' and 'kernelParams' should be set.'')
   \<and> fst (cuLaunchKernelEx fake_env fake_wrapper 0x5000 0x6000 0 0x8000 launch_world)
        \<noteq> Inl (CheckFailed ''Exactly one of 'extra' and 'kernelParams' should be set.'')
   \<and> \<not> check_debug_enabled (fake_env\<lparr>check_debug_enabled := False\<rparr>)
   \<and> fst (cuLaunchKernelEx (fake_env\<lparr>check_debug_enabled := False\<rparr>) fake_wrapper
          0x5000 0x6000 0 0 launch_world)
        \<noteq> Inl (CheckFailed ''Exactly one of 'extra' and 'kernelParams' should be set.'')"
proof -
  have d: "check_debug_enabled fake_env" by (simp add: fake_env_def)
  have r: "\<not> check_debug_enabled (fake_env\<lparr>check_debug_enabled := False\<rparr>)" by simp
  note T = cuLaunchKernelEx_debug_check [OF launch_world_config example_config_wf]
  have 1: "fst (cuLaunchKernelEx fake_env fake_wrapper 0x5000 0x6000 0 0 launch_world)
        = Inl (CheckFailed ''Exactly one of 'extra' and 'kernelParams' should be set.'')"
    using T [where env = fake_env and this = fake_wrapper and f = "0x6000" and kernelParams = 0 and extra = 0] d by (simp add: nullptr_def)
  have 2: "fst (cuLaunchKernelEx fake_env fake_wrapper 0x5000 0x6000 0x7000 0x8000 launch_world)
        = Inl (CheckFailed ''Exactly one of 'extra' and 'kernelParams' should be set.'')"
    using T [where env = fake_env and this = fake_wrapper and f = "0x6000" and kernelParams = "0x7000" and extra = "0x8000"] d by (simp add: nullptr_def)
  have 3: "fst (cuLaunchKernelEx fake_env fake_wrapper 0x5000 0x6000 0x7000 0 launch_world)
        \<noteq> Inl (CheckFailed ''Exactly one of 'extra' and 'kernelParams' should be set.'')"
    using T [where env = fake_env and this = fake_wrapper and f = "0x6000" and kernelParams = "0x7000" and extra = 0] d by (simp add: nullptr_def)
  have 4: "fst (cuLaunchKernelEx fake_env fake_wrapper 0x5000 0x6000 0 0x8000 launch_world)
        \<noteq> Inl (CheckFailed ''Exactly one of 'extra' and 'kernelParams' should be set.'')"
    using T [where env = fake_env and this = fake_wrapper and f = "0x6000" and kernelParams = 0 and extra = "0x8000"] d by (simp add: nullptr_def)
  have 5: "fst (cuLaunchKernelEx (fake_env\<lparr>check_debug_enabled := False\<rparr>) fake_wrapper
          0x5000 0x6000 0 0 launch_world)
        \<noteq> Inl (CheckFailed ''Exactly one of 'extra' and 'kernelParams' should be set.'')"
    using T [where env = "fake_env\<lparr>check_debug_enabled := False\<rparr>" and this = fake_wrapper and f = "0x6000" and kernelParams = 0 and extra = 0] r
    by blast
  from launch_world_config example_config_wf d 1 2 3 4 r 5 show ?thesis
    by (intro conjI)
qed

text \<open>
  C9. In \<open>cuLaunchKernelEx\<close>, called with a pointer to a configuration, the formatted
  configuration is appended to the log before anything else happens. When the
  exclusivity check fires, the call ends with the failure in a state that holds the new
  log line and is otherwise untouched. When it does not fire, the native function is
  called on the state that already holds the new log line.
\<close>

theorem cuLaunchKernelEx_logs_first:
  assumes "deref_config s config = Some c" and "unat (numAttrs c) \<le> length (attrs c)"
  shows "\<exists>str. stringify_launch_config c = Inr str
     \<and> log_sink (TLLM_LOG_DEBUG (''Launch config: '' @ str) s)
          = log_sink s @ [(DEBUG, ''Launch config: '' @ str)]
     \<and> (check_debug_enabled env \<and> (extra \<noteq> nullptr) = (kernelParams \<noteq> nullptr) \<longrightarrow>
           cuLaunchKernelEx env this config f kernelParams extra s =
             (Inl (CheckFailed ''Exactly one of 'extra' and 'kernelParams' should be set.''),
              TLLM_LOG_DEBUG (''Launch config: '' @ str) s))
     \<and> (\<not> (check_debug_enabled env \<and> (extra \<noteq> nullptr) = (kernelParams \<noteq> nullptr)) \<longrightarrow>
           cuLaunchKernelEx env this config f kernelParams extra s =
             call_fn env (fn_cuLaunchKernelEx this)
               [VPtr config, VPtr f, VPtr kernelParams, VPtr extra]
               (TLLM_LOG_DEBUG (''Launch config: '' @ str) s))
     \<and> (\<not> (check_debug_enabled env \<and> (extra \<noteq> nullptr) = (kernelParams \<noteq> nullptr))
          \<and> fn_cuLaunchKernelEx this \<noteq> nullptr
          \<and> code_at env (fn_cuLaunchKernelEx this) = Some stub \<longrightarrow>
           cuLaunchKernelEx env this config f kernelParams extra s =
             apfst Inr (stub [VPtr config, VPtr f, VPtr kernelParams, VPtr extra]
               (TLLM_LOG_DEBUG (''Launch config: '' @ str) s)))"
proof -
  from stringify_returns [OF assms(2)] obtain str where
    str: "stringify_launch_config c = Inr str" ..
  have l: "log_sink (TLLM_LOG_DEBUG (''Launch config: '' @ str) s)
          = log_sink s @ [(DEBUG, ''Launch config: '' @ str)]"
    by (simp add: TLLM_LOG_DEBUG_def)
  note v = cuLaunchKernelEx_valid [OF assms(1) str, of env this f kernelParams extra]
  have a: "cuLaunchKernelEx env this config f kernelParams extra s =
             (Inl (CheckFailed ''Exactly one of 'extra' and 'kernelParams' should be set.''),
              TLLM_LOG_DEBUG (''Launch config: '' @ str) s)"
    if "check_debug_enabled env \<and> (extra \<noteq> nullptr) = (kernelParams \<noteq> nullptr)"
    using that by (simp add: v)
  have b: "cuLaunchKernelEx env this config f kernelParams extra s =
             call_fn env (fn_cuLaunchKernelEx this)
               [VPtr config, VPtr f, VPtr kernelParams, VPtr extra]
               (TLLM_LOG_DEBUG (''Launch config: '' @ str) s)"
    if "\<not> (check_debug_enabled env \<and> (extra \<noteq> nullptr) = (kernelParams \<noteq> nullptr))"
    using that by (auto simp: v)
  have c: "cuLaunchKernelEx env this config f kernelParams extra s =
             apfst Inr (stub [VPtr config, VPtr f, VPtr kernelParams, VPtr extra]
               (TLLM_LOG_DEBUG (''Launch config: '' @ str) s))"
    if "\<not> (check_debug_enabled env \<and> (extra \<noteq> nullptr) = (kernelParams \<noteq> nullptr))
          \<and> fn_cuLaunchKernelEx this \<noteq> nullptr
          \<and> code_at env (fn_cuLaunchKernelEx this) = Some stub"
    using that b by (simp add: call_fn_stub)
  from str l a b c show ?thesis by blast
qed

theorem cuLaunchKernelEx_logs_first_witness:
  "deref_config launch_world 0x5000 = Some example_config
   \<and> unat (numAttrs example_config) \<le> length (attrs example_config)
   \<and> log_sink launch_world = []
   \<and> (\<exists>str. stringify_launch_config example_config = Inr str
        \<and> cuLaunchKernelEx probe_env fake_wrapper 0x5000 0x6000 0 0 launch_world =
             (Inl (CheckFailed ''Exactly one of 'extra' and 'kernelParams' should be set.''),
              launch_world\<lparr>log_sink := [(DEBUG, ''Launch config: '' @ str)]\<rparr>)
        \<and> cuLaunchKernelEx probe_env fake_wrapper 0x5000 0x6000 0x7000 0 launch_world =
             (Inr 1, launch_world\<lparr>log_sink := [(DEBUG, ''Launch config: '' @ str)]\<rparr>))"
proof -
  have e: "log_sink launch_world = []"
    by (simp add: launch_world_def initial_world_def)
  have d: "check_debug_enabled probe_env"
    by (simp add: probe_env_def fake_env_def)
  have p: "fn_cuLaunchKernelEx fake_wrapper \<noteq> nullptr"
    "code_at probe_env (fn_cuLaunchKernelEx fake_wrapper) = Some log_probe_stub"
    by (simp_all add: probe_env_def fake_wrapper_def nullptr_def)
  from cuLaunchKernelEx_logs_first [OF launch_world_config example_config_wf,
      where env = probe_env and extra = 0 and kernelParams = 0 and this = fake_wrapper
        and f = "0x6000" and stub = log_probe_stub]
  obtain str where str: "stringify_launch_config example_config = Inr str"
    and a: "cuLaunchKernelEx probe_env fake_wrapper 0x5000 0x6000 0 0 launch_world =
             (Inl (CheckFailed ''Exactly one of 'extra' and 'kernelParams' should be set.''),
              TLLM_LOG_DEBUG (''Launch config: '' @ str) launch_world)"
    using d by auto
  from cuLaunchKernelEx_logs_first [OF launch_world_config example_config_wf,
      where env = probe_env and extra = 0 and kernelParams = "0x7000" and this = fake_wrapper
        and f = "0x6000" and stub = log_probe_stub]
  obtain str' where str': "stringify_launch_config example_config = Inr str'"
    and b: "cuLaunchKernelEx probe_env fake_wrapper 0x5000 0x6000 0x7000 0 launch_world =
             apfst Inr (log_probe_stub [VPtr 0x5000, VPtr 0x6000, VPtr 0x7000, VPtr 0]
               (TLLM_LOG_DEBUG (''Launch config: '' @ str') launch_world))"
    using p by (auto simp: nullptr_def)
  from str str' have same: "str' = str" by simp
  have a': "cuLaunchKernelEx probe_env fake_wrapper 0x5000 0x6000 0 0 launch_world =
             (Inl (CheckFailed ''Exactly one of 'extra' and 'kernelParams' should be set.''),
              launch_world\<lparr>log_sink := [(DEBUG, ''Launch config: '' @ str)]\<rparr>)"
    by (simp add: a TLLM_LOG_DEBUG_def e)
  have b': "cuLaunchKernelEx probe_env fake_wrapper 0x5000 0x6000 0x7000 0 launch_world =
             (Inr 1, launch_world\<lparr>log_sink := [(DEBUG, ''Launch config: '' @ str)]\<rparr>)"
    by (simp add: b same TLLM_LOG_DEBUG_def e log_probe_stub_def)
  from launch_world_config example_config_wf e str a' b' show ?thesis
    by blast
qed

end
